theory Spec2Isabelle
  imports Main "HOL-Library.Sublist"
begin

section \<open>Python values and exceptions\<close>

text \<open>
  The module \<^verbatim>\<open>sbomnix/sbomdb.py\<close> works on values decoded from JSON and on the cells
  of pandas data frames. Both are Python objects, modelled by one datatype. A dictionary
  is an association list in insertion order (JSON object keys are strings); \<open>PNaN\<close> is
  the float \<^verbatim>\<open>nan\<close> that pandas uses as its missing-value marker. Other floats do
  not occur in the model, and the integers are those of the signed 64-bit range, which
  pandas stores as \<^verbatim>\<open>int64\<close>. Strings are byte strings (UTF-8).
\<close>

datatype pyval =
    PNone
  | PNaN
  | PBool bool
  | PInt int
  | PStr string
  | PList "pyval list"
  | PDict "(string \<times> pyval) list"

text \<open>
  The exceptions that the modelled code can raise. \<open>OtherError\<close> carries the class name
  of an exception of \<^verbatim>\<open>json.loads\<close> other than \<^verbatim>\<open>JSONDecodeError\<close>, such as the
  \<^verbatim>\<open>RecursionError\<close> of a deeply nested text.
\<close>

datatype error =
    OSError
  | UnicodeDecodeError
  | JSONDecodeError
  | OtherError string
  | AttributeError
  | TypeError
  | ValueError
  | KeyError string

text \<open>
  Sequencing of statements that may raise: \<open>raising m f\<close> runs \<open>f\<close> on the value
  of \<open>m\<close>, or propagates the exception of \<open>m\<close>.
\<close>

fun raising :: "error + 'a \<Rightarrow> ('a \<Rightarrow> error + 'b) \<Rightarrow> error + 'b" where
  "raising (Inl e) f = Inl e"
| "raising (Inr x) f = f x"

text \<open>Python truth value testing, as used by \<^verbatim>\<open>filter(None, ...)\<close> and \<^verbatim>\<open>if not x\<close>.\<close>

fun truthy :: "pyval \<Rightarrow> bool" where
  "truthy PNone = False"
| "truthy PNaN = True"
| "truthy (PBool b) = b"
| "truthy (PInt i) = (i \<noteq> 0)"
| "truthy (PStr s) = (s \<noteq> [])"
| "truthy (PList xs) = (xs \<noteq> [])"
| "truthy (PDict kvs) = (kvs \<noteq> [])"

text \<open>\<^verbatim>\<open>pandas.isna\<close> on a single object cell: \<^verbatim>\<open>None\<close> and \<^verbatim>\<open>nan\<close> are missing.\<close>

fun isna :: "pyval \<Rightarrow> bool" where
  "isna PNone = True"
| "isna PNaN = True"
| "isna _ = False"

text \<open>\<^verbatim>\<open>d.get(key, default)\<close> on a dictionary.\<close>

definition dict_get :: "(string \<times> pyval) list \<Rightarrow> string \<Rightarrow> pyval \<Rightarrow> pyval" where
  "dict_get d k dflt = (case map_of d k of None \<Rightarrow> dflt | Some v \<Rightarrow> v)"

text \<open>
  \<^verbatim>\<open>x.get(key, default)\<close> on an arbitrary object: only dictionaries have the method,
  every other JSON value raises \<^verbatim>\<open>AttributeError\<close>.
\<close>

fun py_get :: "pyval \<Rightarrow> string \<Rightarrow> pyval \<Rightarrow> error + pyval" where
  "py_get (PDict d) k dflt = Inr (dict_get d k dflt)"
| "py_get _ k dflt = Inl AttributeError"

text \<open>\<^verbatim>\<open>d[key] = value\<close>: overwrite in place, or append a new key at the end.\<close>

fun dict_set :: "(string \<times> pyval) list \<Rightarrow> string \<Rightarrow> pyval \<Rightarrow> (string \<times> pyval) list" where
  "dict_set [] k v = [(k, v)]"
| "dict_set ((k', v') # d) k v = (if k' = k then (k, v) # d else (k', v') # dict_set d k v)"

text \<open>
  \<^verbatim>\<open>sep.join(xs)\<close>: every element has to be a \<^verbatim>\<open>str\<close>, otherwise \<^verbatim>\<open>TypeError\<close>.
\<close>

fun str_join :: "string \<Rightarrow> pyval list \<Rightarrow> error + string" where
  "str_join sep [] = Inr []"
| "str_join sep [PStr s] = Inr s"
| "str_join sep (PStr s # x # xs) =
     (case str_join sep (x # xs) of Inl e \<Rightarrow> Inl e | Inr t \<Rightarrow> Inr (s @ sep @ t))"
| "str_join sep (_ # xs) = Inl TypeError"

text \<open>\<^verbatim>\<open>s.split(c)\<close> for a one-character separator: never returns the empty list.\<close>

fun split_on :: "char \<Rightarrow> string \<Rightarrow> string list" where
  "split_on c [] = [[]]"
| "split_on c (x # xs) =
     (if x = c then [] # split_on c xs
      else (case split_on c xs of [] \<Rightarrow> [[x]] | w # ws \<Rightarrow> (x # w) # ws))"


section \<open>Nix package metadata: the catalog loader\<close>

text \<open>
  \<^verbatim>\<open>_parse_meta_entry(meta, key)\<close>: a dictionary gives its \<open>key\<close> field, a list gives
  the field of every dictionary element and every other element as it is, anything else
  is taken as it is; falsy values are filtered out.
\<close>

definition parse_meta_entry :: "pyval \<Rightarrow> string \<Rightarrow> pyval list" where
  "parse_meta_entry meta key =
     filter truthy
       (case meta of
          PDict d \<Rightarrow> [dict_get d key (PStr [])]
        | PList xs \<Rightarrow>
            map (\<lambda>x. case x of PDict d \<Rightarrow> dict_get d key (PStr []) | _ \<Rightarrow> x) xs
        | _ \<Rightarrow> [meta])"

text \<open>A pandas data frame: the column labels and the rows, each a list of cells.\<close>

record dataframe =
  columns :: "string list"
  rows :: "pyval list list"

definition wf_df :: "dataframe \<Rightarrow> bool" where
  "wf_df df = list_all (\<lambda>r. length r = length (columns df)) (rows df)"

definition meta_columns :: "string list" where
  "meta_columns =
     [''nixpkgs'', ''name'', ''pname'', ''version'', ''meta_homepage'', ''meta_position'',
      ''meta_license_short'', ''meta_license_spdxid'', ''meta_maintainers_email'']"

text \<open>
  One iteration of the loop of \<^verbatim>\<open>_parse_json_metadata\<close>: the values appended to the
  nine column lists for the entry \<open>nixpkg_name, pkg\<close>, in the order of the statements.
  An exception leaves the loop, so the cells of one entry are modelled as one row.
\<close>

definition meta_row :: "string \<Rightarrow> pyval \<Rightarrow> error + pyval list" where
  "meta_row nixpkg_name pkg =
     raising (py_get pkg ''name'' (PStr [])) (\<lambda>name.
     raising (py_get pkg ''pname'' (PStr [])) (\<lambda>pname.
     raising (py_get pkg ''version'' (PStr [])) (\<lambda>version.
     raising (py_get pkg ''meta'' (PDict [])) (\<lambda>meta.
     raising (py_get meta ''homepage'' (PStr [])) (\<lambda>homepage.
     raising (py_get meta ''position'' (PStr [])) (\<lambda>position.
     raising (py_get meta ''license'' (PDict [])) (\<lambda>meta_license.
     raising (str_join '';'' (parse_meta_entry meta_license ''shortName'')) (\<lambda>license_short.
     raising (str_join '';'' (parse_meta_entry meta_license ''spdxId'')) (\<lambda>license_spdx.
     raising (py_get meta ''maintainers'' (PDict [])) (\<lambda>meta_maintainers.
     raising (str_join '';'' (parse_meta_entry meta_maintainers ''email'')) (\<lambda>emails.
     Inr [PStr nixpkg_name, name, pname, version, homepage, position,
          PStr license_short, PStr license_spdx, PStr emails])))))))))))"

fun meta_rows :: "(string \<times> pyval) list \<Rightarrow> error + pyval list list" where
  "meta_rows [] = Inr []"
| "meta_rows ((nixpkg_name, pkg) # items) =
     (case meta_row nixpkg_name pkg of
        Inl e \<Rightarrow> Inl e
      | Inr r \<Rightarrow> (case meta_rows items of Inl e \<Rightarrow> Inl e | Inr rs \<Rightarrow> Inr (r # rs)))"

text \<open>
  What \<^verbatim>\<open>open(json_filename, "r", encoding="utf-8")\<close> followed by \<^verbatim>\<open>inf.read()\<close>
  does for a path: it raises \<^verbatim>\<open>OSError\<close> (no such file, no permission, a directory),
  it raises \<^verbatim>\<open>UnicodeDecodeError\<close> (the bytes are no UTF-8 text), or it returns the text.
\<close>

datatype read_result =
    Unreadable
  | NotUTF8
  | Text string

text \<open>
  What \<^verbatim>\<open>json.loads\<close> does for a text: it returns the decoded value (it also accepts
  the literal \<^verbatim>\<open>NaN\<close>), it raises \<^verbatim>\<open>JSONDecodeError\<close>, or it raises another
  exception, given by its class name.
\<close>

datatype loads_result =
    Decoded pyval
  | Invalid
  | Raised string

text \<open>
  \<^verbatim>\<open>_parse_json_metadata(json_filename)\<close>. The file system \<open>fs\<close> and the decoder
  \<open>loads\<close> are parameters. A decoded value that is no dictionary has no \<^verbatim>\<open>items\<close>
  method. The columns of the frame are created by the first loop iteration: an empty
  catalog gives a frame without columns.
\<close>

definition parse_json_metadata ::
  "(string \<Rightarrow> read_result) \<Rightarrow> (string \<Rightarrow> loads_result) \<Rightarrow> string \<Rightarrow> error + dataframe" where
  "parse_json_metadata fs loads json_filename =
     (case fs json_filename of
        Unreadable \<Rightarrow> Inl OSError
      | NotUTF8 \<Rightarrow> Inl UnicodeDecodeError
      | Text content \<Rightarrow>
          (case loads content of
             Invalid \<Rightarrow> Inl JSONDecodeError
           | Raised name \<Rightarrow> Inl (OtherError name)
           | Decoded (PDict json_dict) \<Rightarrow>
               (case meta_rows json_dict of
                  Inl e \<Rightarrow> Inl e
                | Inr rs \<Rightarrow>
                    Inr \<lparr>columns = (if json_dict = [] then [] else meta_columns), rows = rs\<rparr>)
           | Decoded _ \<Rightarrow> Inl AttributeError))"


section \<open>The data frame operations used by the merge\<close>

text \<open>The cell of row \<open>r\<close> under the first column labelled \<open>c\<close>, if there is one.\<close>

definition cell :: "string list \<Rightarrow> pyval list \<Rightarrow> string \<Rightarrow> pyval option" where
  "cell cols r c = map_of (zip cols r) c"

text \<open>The row without the cells of the columns labelled \<open>c\<close>.\<close>

definition drop_col :: "string list \<Rightarrow> string \<Rightarrow> pyval list \<Rightarrow> pyval list" where
  "drop_col cols c r = map snd (filter (\<lambda>kv. fst kv \<noteq> c) (zip cols r))"

text \<open>The cells of the first column labelled \<open>c\<close>, from the first row to the last.\<close>

definition column_cells :: "dataframe \<Rightarrow> string \<Rightarrow> pyval list" where
  "column_cells df c = List.map_filter (\<lambda>r. cell (columns df) r c) (rows df)"

fun is_int :: "pyval \<Rightarrow> bool" where
  "is_int (PInt i) = True"
| "is_int _ = False"

fun is_bool :: "pyval \<Rightarrow> bool" where
  "is_bool (PBool b) = True"
| "is_bool _ = False"

fun is_container :: "pyval \<Rightarrow> bool" where
  "is_container (PList xs) = True"
| "is_container (PDict d) = True"
| "is_container _ = False"

text \<open>
  The dtype that pandas infers for a column built from Python values: \<^verbatim>\<open>int64\<close> for
  integers only, \<^verbatim>\<open>bool\<close> for booleans only, \<^verbatim>\<open>float64\<close> for integers and missing
  values with at least one integer or \<^verbatim>\<open>nan\<close>, and \<^verbatim>\<open>object\<close> for everything else,
  the empty column included.
\<close>

datatype dtype = Int64 | Float64 | BoolDtype | Object

definition column_dtype :: "pyval list \<Rightarrow> dtype" where
  "column_dtype cells =
     (if cells = [] then Object
      else if list_all is_int cells then Int64
      else if list_all is_bool cells then BoolDtype
      else if list_all (\<lambda>c. is_int c \<or> isna c) cells \<and> list_ex (\<lambda>c. is_int c \<or> c = PNaN) cells
      then Float64
      else Object)"

text \<open>
  The check of the key columns that \<^verbatim>\<open>merge\<close> makes before it joins. When both key
  columns have cells and their dtypes differ, pandas refuses to join an \<^verbatim>\<open>int64\<close> or
  \<^verbatim>\<open>float64\<close> column with an \<^verbatim>\<open>object\<close> column that holds no integer (a column of
  strings, or a mixed one): it raises \<^verbatim>\<open>ValueError\<close>. Every other pair is joined.
\<close>

definition numeric_keys :: "pyval list \<Rightarrow> bool" where
  "numeric_keys k = (column_dtype k = Int64 \<or> column_dtype k = Float64)"

definition text_keys :: "pyval list \<Rightarrow> bool" where
  "text_keys k = (column_dtype k = Object \<and> \<not> list_ex is_int k)"

definition keys_clash :: "pyval list \<Rightarrow> pyval list \<Rightarrow> bool" where
  "keys_clash lk rk =
     (lk \<noteq> [] \<and> rk \<noteq> []
      \<and> (text_keys lk \<and> numeric_keys rk \<or> numeric_keys lk \<and> text_keys rk))"

text \<open>
  Python's \<^verbatim>\<open>==\<close> on the values that can be join keys: a boolean equals the integer
  0 or 1, and otherwise values are equal when they are the same.
\<close>

fun py_eq :: "pyval \<Rightarrow> pyval \<Rightarrow> bool" where
  "py_eq (PBool b) (PInt i) = (i = (if b then 1 else 0))"
| "py_eq (PInt i) (PBool b) = (i = (if b then 1 else 0))"
| "py_eq a b = (a = b)"

text \<open>
  Join keys match by value; pandas also matches a missing key with a missing key.
\<close>

fun key_match :: "pyval option \<Rightarrow> pyval option \<Rightarrow> bool" where
  "key_match (Some a) (Some b) = (if isna a then isna b else \<not> isna b \<and> py_eq a b)"
| "key_match _ _ = False"

text \<open>
  The rows that a left join on \<open>name\<close> produces for one left row \<open>l\<close>: one joined row
  per matching right row, in the order of the right frame, or the left row padded with
  \<^verbatim>\<open>nan\<close> when nothing matches. The key column is kept once, from the left.
\<close>

definition join_row :: "dataframe \<Rightarrow> dataframe \<Rightarrow> pyval list \<Rightarrow> pyval list list" where
  "join_row left right l =
     (let ms = filter (\<lambda>r. key_match (cell (columns left) l ''name'')
                                      (cell (columns right) r ''name'')) (rows right)
      in if ms = []
         then [l @ replicate (length (filter (\<lambda>c. c \<noteq> ''name'') (columns right))) PNaN]
         else map (\<lambda>r. l @ drop_col (columns right) ''name'' r) ms)"

text \<open>
  The labels of the joined frame for \<^verbatim>\<open>suffixes=["", "_meta"]\<close>: the left labels as
  they are, then the right labels except the key, with \<^verbatim>\<open>_meta\<close> appended to those
  that the left frame also has.
\<close>

definition merged_columns :: "string list \<Rightarrow> string list \<Rightarrow> string list" where
  "merged_columns lcols rcols =
     lcols @ map (\<lambda>c. if c \<in> set lcols then c @ ''_meta'' else c)
                 (filter (\<lambda>c. c \<noteq> ''name'') rcols)"

text \<open>
  \<^verbatim>\<open>left.merge(right, how="left", left_on=["name"], right_on=["name"],
  suffixes=["", "_meta"])\<close>. A frame without the key column raises \<^verbatim>\<open>KeyError\<close>, key
  columns of clashing dtypes raise \<^verbatim>\<open>ValueError\<close>, and a list or a dictionary among the
  keys cannot be hashed and raises \<^verbatim>\<open>TypeError\<close>. The result keeps the order of the left
  rows.
\<close>

definition merge :: "dataframe \<Rightarrow> dataframe \<Rightarrow> error + dataframe" where
  "merge left right =
     (if ''name'' \<notin> set (columns left) \<or> ''name'' \<notin> set (columns right)
      then Inl (KeyError ''name'')
      else if keys_clash (column_cells left ''name'') (column_cells right ''name'')
      then Inl ValueError
      else if list_ex is_container (column_cells left ''name'' @ column_cells right ''name'')
      then Inl TypeError
      else Inr \<lparr>columns = merged_columns (columns left) (columns right),
                rows = concat (map (join_row left right) (rows left))\<rparr>)"

text \<open>\<^verbatim>\<open>df.replace(np.nan, "", regex=True)\<close>: every missing cell becomes the empty string.\<close>

definition fill_cell :: "pyval \<Rightarrow> pyval" where
  "fill_cell c = (if isna c then PStr [] else c)"

definition replace_nan :: "dataframe \<Rightarrow> dataframe" where
  "replace_nan df = \<lparr>columns = columns df, rows = map (map fill_cell) (rows df)\<rparr>"

text \<open>
  The rows that \<^verbatim>\<open>keep="first"\<close> retains: a row is dropped when the key of an earlier
  row (collected in \<open>seen\<close>) equals its key.
\<close>

fun keep_first :: "('a \<Rightarrow> 'k) \<Rightarrow> 'k list \<Rightarrow> 'a list \<Rightarrow> 'a list" where
  "keep_first key seen [] = []"
| "keep_first key seen (r # rs) =
     (if key r \<in> set seen then keep_first key seen rs
      else r # keep_first key (key r # seen) rs)"

text \<open>\<^verbatim>\<open>df.drop_duplicates(subset=c, keep="first")\<close>; an unknown label raises \<^verbatim>\<open>KeyError\<close>.\<close>

definition drop_duplicates :: "dataframe \<Rightarrow> string \<Rightarrow> error + dataframe" where
  "drop_duplicates df c =
     (if c \<notin> set (columns df) then Inl (KeyError c)
      else Inr \<lparr>columns = columns df,
                rows = keep_first (\<lambda>r. cell (columns df) r c) [] (rows df)\<rparr>)"


section \<open>The merge: \<^verbatim>\<open>SbomDb._generate_sbomdb\<close>\<close>

text \<open>
  The frame \<^verbatim>\<open>df_sbomdb\<close> of \<^verbatim>\<open>_generate_sbomdb\<close>: the store frame, joined with the
  metadata frame when a path is given. \<open>df_store\<close> stands for
  \<^verbatim>\<open>self.store.to_dataframe()\<close>. The diagnostic dump of the metadata frame is left out.
\<close>

definition df_sbomdb ::
  "(string \<Rightarrow> read_result) \<Rightarrow> (string \<Rightarrow> loads_result) \<Rightarrow> dataframe \<Rightarrow> string option
     \<Rightarrow> error + dataframe" where
  "df_sbomdb fs loads df_store meta_path =
     (case meta_path of
        None \<Rightarrow> Inr df_store
      | Some p \<Rightarrow>
          raising (parse_json_metadata fs loads p) (\<lambda>df_meta. merge df_store df_meta))"

text \<open>The frame \<^verbatim>\<open>df_sbom\<close>: \<^verbatim>\<open>df_sbomdb\<close> with the missing cells filled.\<close>

definition df_sbom ::
  "(string \<Rightarrow> read_result) \<Rightarrow> (string \<Rightarrow> loads_result) \<Rightarrow> dataframe \<Rightarrow> string option
     \<Rightarrow> error + dataframe" where
  "df_sbom fs loads df_store meta_path =
     raising (df_sbomdb fs loads df_store meta_path) (\<lambda>d. Inr (replace_nan d))"

text \<open>The returned frame: \<^verbatim>\<open>df_sbom\<close> without the later rows of a repeated store path.\<close>

definition generate_sbomdb ::
  "(string \<Rightarrow> read_result) \<Rightarrow> (string \<Rightarrow> loads_result) \<Rightarrow> dataframe \<Rightarrow> string option
     \<Rightarrow> error + dataframe" where
  "generate_sbomdb fs loads df_store meta_path =
     raising (df_sbom fs loads df_store meta_path) (\<lambda>d. drop_duplicates d ''store_path'')"


section \<open>CycloneDX: projecting one row\<close>

text \<open>
  The loop of \<^verbatim>\<open>to_cdx\<close> reads the frame with \<^verbatim>\<open>itertuples\<close>: each row is a named
  tuple whose fields are the column labels. A named tuple is modelled as the association
  list of labels and cells (the \<^verbatim>\<open>Index\<close> field is left out).
\<close>

definition itertuples :: "dataframe \<Rightarrow> (string \<times> pyval) list list" where
  "itertuples df = map (zip (columns df)) (rows df)"

text \<open>Attribute access \<^verbatim>\<open>row.c\<close>: a row without the field raises \<^verbatim>\<open>AttributeError\<close>.\<close>

definition getattr :: "(string \<times> pyval) list \<Rightarrow> string \<Rightarrow> error + pyval" where
  "getattr row c = (case map_of row c of None \<Rightarrow> Inl AttributeError | Some v \<Rightarrow> Inr v)"

definition license_dict :: "string \<Rightarrow> string \<Rightarrow> pyval" where
  "license_dict cdx_license_type license_string =
     PDict [(''license'', PDict [(cdx_license_type, PStr license_string)])]"

text \<open>
  \<^verbatim>\<open>_licenses_entry_from_row(row, column_name, cdx_license_type)\<close>. A truthy cell that
  is no string has no \<^verbatim>\<open>split\<close> method.
\<close>

definition licenses_entry_from_row ::
  "(string \<times> pyval) list \<Rightarrow> string \<Rightarrow> string \<Rightarrow> error + pyval list" where
  "licenses_entry_from_row row column_name cdx_license_type =
     (case map_of row column_name of
        None \<Rightarrow> Inr []
      | Some license_str \<Rightarrow>
          if \<not> truthy license_str then Inr []
          else (case license_str of
                  PStr s \<Rightarrow> Inr (map (license_dict cdx_license_type) (split_on CHR '';'' s))
                | _ \<Rightarrow> Inl AttributeError))"

text \<open>\<^verbatim>\<open>_cdx_component_add_licenses(component, row)\<close>, returning the updated component.\<close>

definition cdx_component_add_licenses ::
  "(string \<times> pyval) list \<Rightarrow> (string \<times> pyval) list \<Rightarrow> error + (string \<times> pyval) list" where
  "cdx_component_add_licenses component row =
     raising (licenses_entry_from_row row ''meta_license_short'' ''name'') (\<lambda>licenses.
     if licenses = [] then Inr component
     else Inr (dict_set component ''licenses'' (PList licenses)))"

text \<open>
  \<^verbatim>\<open>str(PackageURL(type="nix", name=..., version=...))\<close> of the packageurl library.
  The constructor requires a truthy name and rejects a truthy name or version that is no
  string. Name and version are stripped of surrounding white space, the name also of
  surrounding slashes; the string form percent-encodes every byte that is not a
  letter, a digit or one of \<^verbatim>\<open>_.-~/:\<close>, and has the \<^verbatim>\<open>@version\<close> part only for a
  version that is not empty.
\<close>

text \<open>
  The characters that \<^verbatim>\<open>str.strip()\<close> removes, in UTF-8: the ASCII white space and
  separators, U+0085, U+00A0, U+1680, U+2000 to U+200A, U+2028, U+2029, U+202F, U+205F
  and U+3000.
\<close>

definition white_space :: "string list" where
  "white_space =
     [[CHR 0x09], [CHR 0x0A], [CHR 0x0B], [CHR 0x0C], [CHR 0x0D],
      [CHR 0x1C], [CHR 0x1D], [CHR 0x1E], [CHR 0x1F], [CHR 0x20],
      [CHR 0xC2, CHR 0x85], [CHR 0xC2, CHR 0xA0],
      [CHR 0xE1, CHR 0x9A, CHR 0x80],
      [CHR 0xE2, CHR 0x80, CHR 0x80], [CHR 0xE2, CHR 0x80, CHR 0x81],
      [CHR 0xE2, CHR 0x80, CHR 0x82], [CHR 0xE2, CHR 0x80, CHR 0x83],
      [CHR 0xE2, CHR 0x80, CHR 0x84], [CHR 0xE2, CHR 0x80, CHR 0x85],
      [CHR 0xE2, CHR 0x80, CHR 0x86], [CHR 0xE2, CHR 0x80, CHR 0x87],
      [CHR 0xE2, CHR 0x80, CHR 0x88], [CHR 0xE2, CHR 0x80, CHR 0x89],
      [CHR 0xE2, CHR 0x80, CHR 0x8A],
      [CHR 0xE2, CHR 0x80, CHR 0xA8], [CHR 0xE2, CHR 0x80, CHR 0xA9],
      [CHR 0xE2, CHR 0x80, CHR 0xAF],
      [CHR 0xE2, CHR 0x81, CHR 0x9F],
      [CHR 0xE3, CHR 0x80, CHR 0x80]]"

text \<open>The length of the byte sequence of \<open>seqs\<close> that the string starts with, or 0.\<close>

definition lead_len :: "string list \<Rightarrow> string \<Rightarrow> nat" where
  "lead_len seqs s = (case find (\<lambda>w. prefix w s) seqs of None \<Rightarrow> 0 | Some w \<Rightarrow> length w)"

text \<open>The string without the leading characters that are in \<open>seqs\<close>.\<close>

function lstrip_seqs :: "string list \<Rightarrow> string \<Rightarrow> string" where
  "lstrip_seqs seqs s =
     (if lead_len seqs s = 0 then s else lstrip_seqs seqs (drop (lead_len seqs s) s))"
  by pat_completeness auto
termination
proof (relation "measure (\<lambda>p. length (snd p))")
  show "wf (measure (\<lambda>p. length (snd p)))" by simp
next
  fix seqs :: "string list" and s :: string
  assume "lead_len seqs s \<noteq> 0"
  moreover have "lead_len seqs s \<le> length s"
    by (auto simp: lead_len_def find_Some_iff prefix_length_le split: option.splits)
  ultimately show "((seqs, drop (lead_len seqs s) s), (seqs, s)) \<in> measure (\<lambda>p. length (snd p))"
    by simp
qed

declare lstrip_seqs.simps [simp del]

text \<open>\<^verbatim>\<open>s.strip()\<close>: white space is removed from the left and from the right.\<close>

definition strip :: "string \<Rightarrow> string" where
  "strip s = rev (lstrip_seqs (map rev white_space) (rev (lstrip_seqs white_space s)))"

definition strip_slashes :: "string \<Rightarrow> string" where
  "strip_slashes s =
     rev (dropWhile (\<lambda>c. c = CHR ''/'') (rev (dropWhile (\<lambda>c. c = CHR ''/'') s)))"

definition is_unreserved :: "char \<Rightarrow> bool" where
  "is_unreserved c =
     (c \<in> set ''ABCDEFGHIJKLMNOPQRSTUVWXYZabcdefghijklmnopqrstuvwxyz0123456789_.-~'')"

definition hex_digit :: "nat \<Rightarrow> char" where
  "hex_digit n = ''0123456789ABCDEF'' ! (n mod 16)"

definition quote_char :: "char \<Rightarrow> string" where
  "quote_char c =
     (if is_unreserved c \<or> c = CHR ''/'' \<or> c = CHR '':'' then [c]
      else [CHR ''%'', hex_digit (of_char c div 16), hex_digit (of_char c)])"

definition quote :: "string \<Rightarrow> string" where
  "quote s = concat (map quote_char s)"

definition PackageURL_str :: "pyval \<Rightarrow> pyval \<Rightarrow> error + string" where
  "PackageURL_str name version =
     (if \<not> truthy name then Inl ValueError
      else case name of
        PStr n \<Rightarrow>
          raising (if \<not> truthy version then Inr []
                   else case version of PStr v \<Rightarrow> Inr (strip v) | _ \<Rightarrow> Inl ValueError)
            (\<lambda>v. let n' = strip_slashes (strip n)
                  in if n' = [] then Inl TypeError
                     else Inr (''pkg:nix/'' @ quote n' @ (if v = [] then [] else ''@'' @ quote v)))
      | _ \<Rightarrow> Inl ValueError)"

text \<open>\<^verbatim>\<open>_df_row_to_cdx_component(row)\<close>: the component dictionary, keys in insertion order.\<close>

definition df_row_to_cdx_component ::
  "(string \<times> pyval) list \<Rightarrow> error + (string \<times> pyval) list" where
  "df_row_to_cdx_component row =
     raising (getattr row ''store_path'') (\<lambda>store_path.
     raising (getattr row ''pname'') (\<lambda>pname.
     raising (getattr row ''version'') (\<lambda>version.
     raising (PackageURL_str pname version) (\<lambda>purl.
     raising (getattr row ''cpe'') (\<lambda>cpe.
     cdx_component_add_licenses
       [(''type'', PStr ''application''), (''bom-ref'', store_path), (''name'', pname),
        (''version'', version), (''purl'', PStr purl), (''cpe'', cpe)]
       row)))))"


section \<open>CycloneDX: assembling the document\<close>

text \<open>
  The loop of \<^verbatim>\<open>to_cdx\<close> over the rows. The state is the pair of
  \<^verbatim>\<open>cdx["metadata"]["component"]\<close> (\<open>None\<close> while the key is not set) and
  \<^verbatim>\<open>cdx["components"]\<close>.
\<close>

fun to_cdx_loop ::
  "pyval \<Rightarrow> (string \<times> pyval) list list \<Rightarrow> pyval option \<times> pyval list
     \<Rightarrow> error + (pyval option \<times> pyval list)" where
  "to_cdx_loop target_path [] st = Inr st"
| "to_cdx_loop target_path (row # rest) (root, components) =
     raising (df_row_to_cdx_component row) (\<lambda>component.
     raising (getattr row ''store_path'') (\<lambda>store_path.
     if store_path = target_path
     then to_cdx_loop target_path rest (Some (PDict component), components)
     else to_cdx_loop target_path rest (root, components @ [PDict component])))"

text \<open>
  \<^verbatim>\<open>to_cdx\<close>, as the dictionary \<^verbatim>\<open>cdx\<close> that the method serialises; writing the file
  is left out. \<open>self_df_sbomdb\<close> is the attribute \<^verbatim>\<open>self.df_sbomdb\<close>,
  \<open>target_path\<close> stands for \<^verbatim>\<open>self.store.get_target_drv_path()\<close> and
  \<open>uuid4\<close> for the text of the random \<^verbatim>\<open>uuid.uuid4()\<close>.
\<close>

definition to_cdx :: "dataframe \<Rightarrow> pyval \<Rightarrow> string \<Rightarrow> error + pyval" where
  "to_cdx self_df_sbomdb target_path uuid4 =
     raising (to_cdx_loop target_path (itertuples self_df_sbomdb) (None, [])) (\<lambda>st.
     Inr (PDict
       [(''bomFormat'', PStr ''CycloneDX''),
        (''specVersion'', PStr ''1.3''),
        (''version'', PInt 1),
        (''serialNumber'', PStr (''urn:uuid:'' @ uuid4)),
        (''metadata'',
           PDict ((''tools'',
                   PList [PDict [(''vendor'', PStr ''TII''), (''name'', PStr ''sbomnix''),
                                 (''version'', PStr ''0.1.0'')]])
                  # (case fst st of None \<Rightarrow> [] | Some c \<Rightarrow> [(''component'', c)]))),
        (''components'', PList (snd st))]))"


section \<open>The catalog loader as the specification words it\<close>

text \<open>\<^verbatim>\<open>sep.join(ws)\<close> on a list of strings.\<close>

fun join_strs :: "string \<Rightarrow> string list \<Rightarrow> string" where
  "join_strs sep [] = []"
| "join_strs sep [w] = w"
| "join_strs sep (w # v # ws) = w @ sep @ join_strs sep (v # ws)"

text \<open>
  The values that the specification extracts from \<^verbatim>\<open>meta.license\<close> or
  \<^verbatim>\<open>meta.maintainers\<close>, which may be absent (\<open>None\<close>), a single object or a list: the
  field \<open>key\<close> of every object that has it, and every other entry as it is.
\<close>

fun spec_field_values :: "pyval option \<Rightarrow> string \<Rightarrow> pyval list" where
  "spec_field_values None key = []"
| "spec_field_values (Some (PDict d)) key = (case map_of d key of None \<Rightarrow> [] | Some v \<Rightarrow> [v])"
| "spec_field_values (Some (PList xs)) key =
     concat (map (\<lambda>x. case x of
                         PDict d \<Rightarrow> (case map_of d key of None \<Rightarrow> [] | Some v \<Rightarrow> [v])
                       | _ \<Rightarrow> [x]) xs)"
| "spec_field_values (Some v) key = [v]"

fun is_str :: "pyval \<Rightarrow> bool" where
  "is_str (PStr s) = True"
| "is_str _ = False"

fun str_of :: "pyval \<Rightarrow> string" where
  "str_of (PStr s) = s"
| "str_of _ = []"

text \<open>The extracted values without the falsy ones, and their semicolon-joined text.\<close>

definition spec_kept :: "pyval option \<Rightarrow> string \<Rightarrow> pyval list" where
  "spec_kept v key = filter truthy (spec_field_values v key)"

definition spec_joined :: "pyval option \<Rightarrow> string \<Rightarrow> string" where
  "spec_joined v key = join_strs '';'' (map str_of (spec_kept v key))"

text \<open>The fields of an entry, and of its \<^verbatim>\<open>meta\<close> object when it has one.\<close>

definition entry_fields :: "pyval \<Rightarrow> (string \<times> pyval) list" where
  "entry_fields pkg = (case pkg of PDict d \<Rightarrow> d | _ \<Rightarrow> [])"

definition entry_meta :: "pyval \<Rightarrow> (string \<times> pyval) list" where
  "entry_meta pkg = (case map_of (entry_fields pkg) ''meta'' of Some (PDict m) \<Rightarrow> m | _ \<Rightarrow> [])"

text \<open>The row of the specification for one top-level key: absent fields are empty strings.\<close>

definition spec_meta_row :: "string \<Rightarrow> pyval \<Rightarrow> pyval list" where
  "spec_meta_row nixpkg_name pkg =
     [PStr nixpkg_name,
      dict_get (entry_fields pkg) ''name'' (PStr []),
      dict_get (entry_fields pkg) ''pname'' (PStr []),
      dict_get (entry_fields pkg) ''version'' (PStr []),
      dict_get (entry_meta pkg) ''homepage'' (PStr []),
      dict_get (entry_meta pkg) ''position'' (PStr []),
      PStr (spec_joined (map_of (entry_meta pkg) ''license'') ''shortName''),
      PStr (spec_joined (map_of (entry_meta pkg) ''license'') ''spdxId''),
      PStr (spec_joined (map_of (entry_meta pkg) ''maintainers'') ''email'')]"

text \<open>
  The entries that the loader accepts: an object whose \<^verbatim>\<open>meta\<close>, when present, is an
  object, and whose extracted license and maintainer values are strings or falsy.
\<close>

definition wf_entry :: "pyval \<Rightarrow> bool" where
  "wf_entry pkg =
     ((case pkg of PDict d \<Rightarrow> True | _ \<Rightarrow> False)
      \<and> (case map_of (entry_fields pkg) ''meta'' of
            None \<Rightarrow> True | Some (PDict m) \<Rightarrow> True | Some _ \<Rightarrow> False)
      \<and> list_all is_str (spec_kept (map_of (entry_meta pkg) ''license'') ''shortName'')
      \<and> list_all is_str (spec_kept (map_of (entry_meta pkg) ''license'') ''spdxId'')
      \<and> list_all is_str (spec_kept (map_of (entry_meta pkg) ''maintainers'') ''email''))"


section \<open>Notions used in the statements\<close>

text \<open>The test \<^verbatim>\<open>row.store_path == target_path\<close> of the loop, for a row that has the field.\<close>

definition is_root :: "pyval \<Rightarrow> (string \<times> pyval) list \<Rightarrow> bool" where
  "is_root target_path row = (map_of row ''store_path'' = Some target_path)"

text \<open>The outcome of \<^verbatim>\<open>to_cdx\<close> without the \<^verbatim>\<open>serialNumber\<close> key of the document.\<close>

definition without_serial :: "error + pyval \<Rightarrow> error + pyval" where
  "without_serial r =
     (case r of
        Inr (PDict d) \<Rightarrow> Inr (PDict (filter (\<lambda>kv. fst kv \<noteq> ''serialNumber'') d))
      | _ \<Rightarrow> r)"

text \<open>The \<^verbatim>\<open>store_path\<close> cell of a row of frame \<open>df\<close> after the missing cells are filled.\<close>

definition filled_store_path :: "dataframe \<Rightarrow> pyval list \<Rightarrow> pyval option" where
  "filled_store_path df r = map_option fill_cell (cell (columns df) r ''store_path'')"


section \<open>Example inputs\<close>

text \<open>
  A store frame with two rows for the path \<^verbatim>\<open>/nix/store/aaa-foo-1.0\<close> and a missing
  CPE, a catalog with two entries named \<^verbatim>\<open>foo-1.0\<close>, and a file system that holds the
  catalog under \<^verbatim>\<open>meta.json\<close>, a text that is no JSON under \<^verbatim>\<open>broken.json\<close>, a
  deeply nested text under \<^verbatim>\<open>deep.json\<close> and bytes that are no UTF-8 under
  \<^verbatim>\<open>latin1.json\<close>.
\<close>

definition ex_store :: dataframe where
  "ex_store =
     \<lparr>columns = [''store_path'', ''name'', ''pname'', ''version'', ''cpe''],
      rows =
        [[PStr ''/nix/store/aaa-foo-1.0'', PStr ''foo-1.0'', PStr ''foo'', PStr ''1.0'', PNaN],
         [PStr ''/nix/store/aaa-foo-1.0'', PStr ''foo-1.0'', PStr ''foo2'', PStr ''1.0'', PStr ''c''],
         [PStr ''/nix/store/bbb-hook'', PStr ''hook'', PStr ''hook'', PStr [], PStr ''c'']]\<rparr>"

definition ex_catalog :: pyval where
  "ex_catalog =
     PDict
       [(''foo'', PDict [(''name'', PStr ''foo-1.0''), (''pname'', PStr ''foo''),
                        (''meta'', PDict [(''license'',
                            PList [PDict [(''shortName'', PStr ''MIT'')], PStr ''BSD''])])]),
        (''foo_alias'', PDict [(''name'', PStr ''foo-1.0''),
                        (''meta'', PDict [(''license'', PDict [(''shortName'', PStr ''GPL'')])])])]"

definition ex_fs :: "string \<Rightarrow> read_result" where
  "ex_fs p =
     (if p = ''meta.json'' then Text ''catalog''
      else if p = ''broken.json'' then Text ''{''
      else if p = ''deep.json'' then Text ''deep''
      else if p = ''latin1.json'' then NotUTF8
      else Unreadable)"

text \<open>
  A decoder for which the text \<^verbatim>\<open>catalog\<close> stands for the JSON text of \<open>v\<close> and the
  text \<^verbatim>\<open>deep\<close> for a text nested too deeply.
\<close>

definition ex_loads_as :: "pyval \<Rightarrow> string \<Rightarrow> loads_result" where
  "ex_loads_as v s =
     (if s = ''catalog'' then Decoded v
      else if s = ''deep'' then Raised ''RecursionError''
      else Invalid)"

definition ex_loads :: "string \<Rightarrow> loads_result" where
  "ex_loads = ex_loads_as ex_catalog"


text \<open>The frame \<^verbatim>\<open>df_sbom\<close> of the example with the catalog, and the canonical frame.\<close>

definition ex_joined :: dataframe where
  "ex_joined =
     \<lparr>columns =
        [''store_path'', ''name'', ''pname'', ''version'', ''cpe'', ''nixpkgs'', ''pname_meta'',
         ''version_meta'', ''meta_homepage'', ''meta_position'', ''meta_license_short'',
         ''meta_license_spdxid'', ''meta_maintainers_email''],
      rows =
        [[PStr ''/nix/store/aaa-foo-1.0'', PStr ''foo-1.0'', PStr ''foo'', PStr ''1.0'', PStr [],
          PStr ''foo'', PStr ''foo'', PStr [], PStr [], PStr [], PStr ''MIT;BSD'', PStr ''BSD'',
          PStr []],
         [PStr ''/nix/store/aaa-foo-1.0'', PStr ''foo-1.0'', PStr ''foo'', PStr ''1.0'', PStr [],
          PStr ''foo_alias'', PStr [], PStr [], PStr [], PStr [], PStr ''GPL'', PStr [], PStr []],
         [PStr ''/nix/store/aaa-foo-1.0'', PStr ''foo-1.0'', PStr ''foo2'', PStr ''1.0'', PStr ''c'',
          PStr ''foo'', PStr ''foo'', PStr [], PStr [], PStr [], PStr ''MIT;BSD'', PStr ''BSD'',
          PStr []],
         [PStr ''/nix/store/aaa-foo-1.0'', PStr ''foo-1.0'', PStr ''foo2'', PStr ''1.0'', PStr ''c'',
          PStr ''foo_alias'', PStr [], PStr [], PStr [], PStr [], PStr ''GPL'', PStr [], PStr []],
         [PStr ''/nix/store/bbb-hook'', PStr ''hook'', PStr ''hook'', PStr [], PStr ''c'',
          PStr [], PStr [], PStr [], PStr [], PStr [], PStr [], PStr [], PStr []]]\<rparr>"

definition ex_canonical :: dataframe where
  "ex_canonical =
     \<lparr>columns = columns ex_joined,
      rows =
        [[PStr ''/nix/store/aaa-foo-1.0'', PStr ''foo-1.0'', PStr ''foo'', PStr ''1.0'', PStr [],
          PStr ''foo'', PStr ''foo'', PStr [], PStr [], PStr [], PStr ''MIT;BSD'', PStr ''BSD'',
          PStr []],
         [PStr ''/nix/store/bbb-hook'', PStr ''hook'', PStr ''hook'', PStr [], PStr ''c'',
          PStr [], PStr [], PStr [], PStr [], PStr [], PStr [], PStr [], PStr []]]\<rparr>"


text \<open>The first canonical row of the example as a named tuple, and its component.\<close>

definition ex_row :: "(string \<times> pyval) list" where
  "ex_row =
     [(''store_path'', PStr ''/nix/store/aaa-foo-1.0''), (''name'', PStr ''foo-1.0''),
      (''pname'', PStr ''foo''), (''version'', PStr ''1.0''), (''cpe'', PStr []),
      (''nixpkgs'', PStr ''foo''), (''pname_meta'', PStr ''foo''), (''version_meta'', PStr []),
      (''meta_homepage'', PStr []), (''meta_position'', PStr []),
      (''meta_license_short'', PStr ''MIT;BSD''), (''meta_license_spdxid'', PStr ''BSD''),
      (''meta_maintainers_email'', PStr [])]"

definition ex_component :: "(string \<times> pyval) list" where
  "ex_component =
     [(''type'', PStr ''application''), (''bom-ref'', PStr ''/nix/store/aaa-foo-1.0''),
      (''name'', PStr ''foo''), (''version'', PStr ''1.0''), (''purl'', PStr ''pkg:nix/foo@1.0''),
      (''cpe'', PStr []),
      (''licenses'', PList [PDict [(''license'', PDict [(''name'', PStr ''MIT'')])],
                            PDict [(''license'', PDict [(''name'', PStr ''BSD'')])]])]"


text \<open>A canonical frame of three rows; the second one is the target of the build.\<close>

definition ex_three :: dataframe where
  "ex_three =
     \<lparr>columns = [''store_path'', ''name'', ''pname'', ''version'', ''cpe''],
      rows =
        [[PStr ''/nix/store/aaa-foo-1.0'', PStr ''foo-1.0'', PStr ''foo'', PStr ''1.0'', PStr []],
         [PStr ''/nix/store/bbb-bar-2.0'', PStr ''bar-2.0'', PStr ''bar'', PStr ''2.0'', PStr []],
         [PStr ''/nix/store/ccc-baz-3.0'', PStr ''baz-3.0'', PStr ''baz'', PStr ''3.0'', PStr []]]\<rparr>"

definition ex_three_components :: "(string \<times> pyval) list list" where
  "ex_three_components =
     [[(''type'', PStr ''application''), (''bom-ref'', PStr ''/nix/store/aaa-foo-1.0''),
       (''name'', PStr ''foo''), (''version'', PStr ''1.0''), (''purl'', PStr ''pkg:nix/foo@1.0''),
       (''cpe'', PStr [])],
      [(''type'', PStr ''application''), (''bom-ref'', PStr ''/nix/store/bbb-bar-2.0''),
       (''name'', PStr ''bar''), (''version'', PStr ''2.0''), (''purl'', PStr ''pkg:nix/bar@2.0''),
       (''cpe'', PStr [])],
      [(''type'', PStr ''application''), (''bom-ref'', PStr ''/nix/store/ccc-baz-3.0''),
       (''name'', PStr ''baz''), (''version'', PStr ''3.0''), (''purl'', PStr ''pkg:nix/baz@3.0''),
       (''cpe'', PStr [])]]"


text \<open>A file system that holds the catalog under \<^verbatim>\<open>meta.json\<close> and nothing else.\<close>

definition ex_fs_only :: "string \<Rightarrow> read_result" where
  "ex_fs_only p = (if p = ''meta.json'' then Text ''catalog'' else Unreadable)"

text \<open>The canonical frame of the example store frame without a metadata file.\<close>

definition ex_canonical_store :: dataframe where
  "ex_canonical_store =
     \<lparr>columns = [''store_path'', ''name'', ''pname'', ''version'', ''cpe''],
      rows =
        [[PStr ''/nix/store/aaa-foo-1.0'', PStr ''foo-1.0'', PStr ''foo'', PStr ''1.0'', PStr []],
         [PStr ''/nix/store/bbb-hook'', PStr ''hook'', PStr ''hook'', PStr [], PStr ''c'']]\<rparr>"


text \<open>The metadata frame that the loader returns for the example catalog.\<close>

definition ex_meta :: dataframe where
  "ex_meta =
     \<lparr>columns = meta_columns,
      rows = [[PStr ''foo'', PStr ''foo-1.0'', PStr ''foo'', PStr [], PStr [], PStr [],
               PStr ''MIT;BSD'', PStr ''BSD'', PStr []],
              [PStr ''foo_alias'', PStr ''foo-1.0'', PStr [], PStr [], PStr [], PStr [],
               PStr ''GPL'', PStr [], PStr []]]\<rparr>"

text \<open>A store frame with three different store paths, one of them missing.\<close>

definition ex_store_distinct :: dataframe where
  "ex_store_distinct =
     \<lparr>columns = [''store_path'', ''name'', ''pname'', ''version'', ''cpe''],
      rows =
        [[PStr ''/nix/store/aaa-foo-1.0'', PStr ''foo-1.0'', PStr ''foo'', PStr ''1.0'', PNaN],
         [PNaN, PStr ''bar-2.0'', PStr ''bar'', PStr ''2.0'', PStr ''c''],
         [PStr ''/nix/store/bbb-hook'', PStr ''hook'', PStr ''hook'', PStr [], PStr ''c'']]\<rparr>"


section \<open>Evaluating the examples\<close>

lemmas model_defs =
  df_sbomdb_def df_sbom_def generate_sbomdb_def parse_json_metadata_def meta_row_def
  parse_meta_entry_def dict_get_def merge_def merged_columns_def join_row_def cell_def
  drop_col_def replace_nan_def fill_cell_def drop_duplicates_def meta_columns_def
  column_cells_def List.map_filter_simps keys_clash_def text_keys_def numeric_keys_def
  column_dtype_def

lemmas ex_defs =
  ex_store_def ex_catalog_def ex_fs_def ex_loads_def ex_loads_as_def ex_joined_def
  ex_canonical_def

lemma ex_parse_json_metadata:
  "parse_json_metadata ex_fs ex_loads ''meta.json'' =
     Inr \<lparr>columns = meta_columns,
          rows = [[PStr ''foo'', PStr ''foo-1.0'', PStr ''foo'', PStr [], PStr [], PStr [],
                   PStr ''MIT;BSD'', PStr ''BSD'', PStr []],
                  [PStr ''foo_alias'', PStr ''foo-1.0'', PStr [], PStr [], PStr [], PStr [],
                   PStr ''GPL'', PStr [], PStr []]]\<rparr>"
  by (simp add: model_defs ex_defs)

lemma ex_df_sbom: "df_sbom ex_fs ex_loads ex_store (Some ''meta.json'') = Inr ex_joined"
  by (simp add: model_defs ex_defs)

lemma ex_joined_store_path: "''store_path'' \<in> set (columns ex_joined)"
  by (simp add: ex_joined_def)

lemma ex_generate_sbomdb:
  "generate_sbomdb ex_fs ex_loads ex_store (Some ''meta.json'') = Inr ex_canonical"
  by (simp add: model_defs ex_defs)


section \<open>Dropping duplicates keeps the first row of every key\<close>

lemma keep_first_subset: "set (keep_first key seen xs) \<subseteq> set xs"
  by (induction xs arbitrary: seen) auto

lemma keep_first_not_seen: "r \<in> set (keep_first key seen xs) \<Longrightarrow> key r \<notin> set seen"
proof (induction xs arbitrary: seen)
  case Nil
  then show ?case by simp
next
  case (Cons a xs)
  show ?case
  proof (cases "key a \<in> set seen")
    case True
    with Cons show ?thesis by simp
  next
    case False
    with Cons.prems have "r = a \<or> r \<in> set (keep_first key (key a # seen) xs)" by simp
    then show ?thesis
    proof
      assume "r = a"
      with False show ?thesis by simp
    next
      assume "r \<in> set (keep_first key (key a # seen) xs)"
      then have "key r \<notin> set (key a # seen)" by (rule Cons.IH)
      then show ?thesis by simp
    qed
  qed
qed

lemma keep_first_distinct: "distinct (map key (keep_first key seen xs))"
  by (induction xs arbitrary: seen) (auto dest: keep_first_not_seen)

lemma keep_first_keys: "key ` set (keep_first key seen xs) = key ` set xs - set seen"
  by (induction xs arbitrary: seen) auto

lemma keep_first_find:
  "r \<in> set (keep_first key seen xs) \<Longrightarrow> find (\<lambda>x. key x = key r) xs = Some r"
proof (induction xs arbitrary: seen)
  case Nil
  then show ?case by simp
next
  case (Cons x xs)
  show ?case
  proof (cases "key x \<in> set seen")
    case True
    with Cons.prems have r: "r \<in> set (keep_first key seen xs)" by simp
    then have "key r \<notin> set seen" by (rule keep_first_not_seen)
    with True have "key x \<noteq> key r" by auto
    with Cons.IH [OF r] show ?thesis by simp
  next
    case False
    show ?thesis
    proof (cases "r = x")
      case True
      then show ?thesis by simp
    next
      case neq: False
      with False Cons.prems have r: "r \<in> set (keep_first key (key x # seen) xs)" by simp
      then have "key r \<notin> set (key x # seen)" by (rule keep_first_not_seen)
      then have "key x \<noteq> key r" by auto
      with Cons.IH [OF r] show ?thesis by simp
    qed
  qed
qed

lemma keep_first_subseq: "subseq (keep_first key seen xs) xs"
  by (induction xs arbitrary: seen) auto

text \<open>
  Claim C1. Whenever the frame before deduplication exists (with or without a metadata
  file) and has a \<^verbatim>\<open>store_path\<close> column, the merge returns a canonical frame with the
  same columns in which the \<^verbatim>\<open>store_path\<close> cells are pairwise distinct, the same
  \<^verbatim>\<open>store_path\<close> values occur as before deduplication, every row is the first row of
  the input with its \<^verbatim>\<open>store_path\<close>, and the kept rows are in their input order.
\<close>

theorem generate_sbomdb_keep_first:
  assumes "df_sbom fs loads df_store meta_path = Inr t"
    and "''store_path'' \<in> set (columns t)"
  shows "\<exists>df. generate_sbomdb fs loads df_store meta_path = Inr df
      \<and> columns df = columns t
      \<and> distinct (map (\<lambda>r. cell (columns t) r ''store_path'') (rows df))
      \<and> (\<lambda>r. cell (columns t) r ''store_path'') ` set (rows df)
          = (\<lambda>r. cell (columns t) r ''store_path'') ` set (rows t)
      \<and> (\<forall>r \<in> set (rows df).
            find (\<lambda>x. cell (columns t) x ''store_path'' = cell (columns t) r ''store_path'')
              (rows t) = Some r)
      \<and> subseq (rows df) (rows t)"
proof -
  define key where "key = (\<lambda>r. cell (columns t) r ''store_path'')"
  define kept where "kept = keep_first key [] (rows t)"
  have gen: "generate_sbomdb fs loads df_store meta_path = Inr \<lparr>columns = columns t, rows = kept\<rparr>"
    using assms by (simp add: generate_sbomdb_def drop_duplicates_def kept_def key_def)
  have d: "distinct (map key kept)"
    unfolding kept_def by (rule keep_first_distinct)
  have k: "key ` set kept = key ` set (rows t)"
    unfolding kept_def by (simp add: keep_first_keys)
  have f: "\<forall>r \<in> set kept. find (\<lambda>x. key x = key r) (rows t) = Some r"
    unfolding kept_def by (blast intro: keep_first_find)
  have s: "subseq kept (rows t)"
    unfolding kept_def by (rule keep_first_subseq)
  from gen d k f s show ?thesis
    unfolding key_def by simp
qed

theorem generate_sbomdb_keep_first_witness:
  "df_sbom ex_fs ex_loads ex_store (Some ''meta.json'') = Inr ex_joined
   \<and> ''store_path'' \<in> set (columns ex_joined)
   \<and> (\<exists>df. generate_sbomdb ex_fs ex_loads ex_store (Some ''meta.json'') = Inr df
      \<and> columns df = columns ex_joined
      \<and> distinct (map (\<lambda>r. cell (columns ex_joined) r ''store_path'') (rows df))
      \<and> (\<lambda>r. cell (columns ex_joined) r ''store_path'') ` set (rows df)
          = (\<lambda>r. cell (columns ex_joined) r ''store_path'') ` set (rows ex_joined)
      \<and> (\<forall>r \<in> set (rows df).
            find (\<lambda>x. cell (columns ex_joined) x ''store_path''
                        = cell (columns ex_joined) r ''store_path'')
              (rows ex_joined) = Some r)
      \<and> subseq (rows df) (rows ex_joined))"
  using generate_sbomdb_keep_first [OF ex_df_sbom ex_joined_store_path]
    ex_df_sbom ex_joined_store_path
  by simp

section \<open>Exceptions and missing values\<close>

lemma raising_eq_Inr: "(raising m f = Inr y) = (\<exists>x. m = Inr x \<and> f x = Inr y)"
  by (cases m) auto

lemma raising_eq_Inl: "(raising m f = Inl e) = (m = Inl e \<or> (\<exists>x. m = Inr x \<and> f x = Inl e))"
  by (cases m) auto

lemma fill_cell_not_na: "\<not> isna (fill_cell c)"
  by (cases c) (simp_all add: fill_cell_def)

lemma getattr_Inr_in_set: "getattr row c = Inr v \<Longrightarrow> (c, v) \<in> set row"
  by (auto simp: getattr_def split: option.splits dest: map_of_SomeD)

lemma dict_set_subset: "set (dict_set d k v) \<subseteq> insert (k, v) (set d)"
  by (induction d) (auto split: if_splits)

lemma add_licenses_values:
  assumes "cdx_component_add_licenses component row = Inr cdx_comp"
    and "\<forall>kv \<in> set component. \<not> isna (snd kv)"
  shows "\<forall>kv \<in> set cdx_comp. \<not> isna (snd kv)"
proof -
  from assms(1) obtain licenses where
    c: "cdx_comp = component \<or> cdx_comp = dict_set component ''licenses'' (PList licenses)"
    by (auto simp: cdx_component_add_licenses_def raising_eq_Inr split: if_splits)
  then show ?thesis
  proof
    assume "cdx_comp = component"
    with assms(2) show ?thesis by simp
  next
    assume "cdx_comp = dict_set component ''licenses'' (PList licenses)"
    then have "set cdx_comp \<subseteq> insert (''licenses'', PList licenses) (set component)"
      by (simp add: dict_set_subset)
    with assms(2) show ?thesis by auto
  qed
qed

lemma component_values_not_na:
  assumes "df_row_to_cdx_component row = Inr cdx_comp"
    and "\<forall>kv \<in> set row. \<not> isna (snd kv)"
  shows "\<forall>kv \<in> set cdx_comp. \<not> isna (snd kv)"
proof -
  from assms(1) obtain store_path pname version purl cpe where
    g: "getattr row ''store_path'' = Inr store_path" "getattr row ''pname'' = Inr pname"
       "getattr row ''version'' = Inr version" "getattr row ''cpe'' = Inr cpe"
    and a: "cdx_component_add_licenses
       [(''type'', PStr ''application''), (''bom-ref'', store_path), (''name'', pname),
        (''version'', version), (''purl'', PStr purl), (''cpe'', cpe)] row = Inr cdx_comp"
    by (auto simp: df_row_to_cdx_component_def raising_eq_Inr)
  from g assms(2) have "\<not> isna store_path" "\<not> isna pname" "\<not> isna version" "\<not> isna cpe"
    by (auto dest!: getattr_Inr_in_set)
  then show ?thesis
    by (intro add_licenses_values [OF a]) simp
qed

lemma generate_sbomdb_rows:
  assumes "generate_sbomdb fs loads df_store meta_path = Inr df"
  shows "\<exists>j. df_sbomdb fs loads df_store meta_path = Inr j
      \<and> set (rows df) \<subseteq> set (map (map fill_cell) (rows j))"
proof -
  from assms obtain j where j: "df_sbomdb fs loads df_store meta_path = Inr j"
    and df: "rows df = keep_first (\<lambda>r. cell (columns j) r ''store_path'') []
               (map (map fill_cell) (rows j))"
    by (auto simp: generate_sbomdb_def df_sbom_def raising_eq_Inr drop_duplicates_def
        replace_nan_def split: if_splits)
  from df have "set (rows df) \<subseteq> set (map (map fill_cell) (rows j))"
    by (simp only: keep_first_subset)
  with j show ?thesis by blast
qed

text \<open>
  Claim C6. Whenever the merge returns a canonical frame, its rows are rows of the
  (joined) frame in which every missing cell was replaced by the empty string, so no
  cell of a canonical row is \<^verbatim>\<open>None\<close> or \<^verbatim>\<open>nan\<close>, and no value of a component
  projected from a canonical row is missing either.
\<close>

theorem no_missing_values:
  assumes "generate_sbomdb fs loads df_store meta_path = Inr df"
  shows "(\<exists>j. df_sbomdb fs loads df_store meta_path = Inr j
           \<and> set (rows df) \<subseteq> set (map (map (\<lambda>c. if isna c then PStr [] else c)) (rows j)))
       \<and> (\<forall>r \<in> set (rows df). \<forall>c \<in> set r. \<not> isna c)
       \<and> (\<forall>row \<in> set (itertuples df). \<forall>cdx_comp.
             df_row_to_cdx_component row = Inr cdx_comp \<longrightarrow> (\<forall>kv \<in> set cdx_comp. \<not> isna (snd kv)))"
proof -
  from generate_sbomdb_rows [OF assms] obtain j where
    j: "df_sbomdb fs loads df_store meta_path = Inr j"
    and sub: "set (rows df) \<subseteq> set (map (map fill_cell) (rows j))"
    by blast
  have fc: "fill_cell = (\<lambda>c. if isna c then PStr [] else c)"
    by (rule ext) (simp add: fill_cell_def)
  have cells: "\<forall>r \<in> set (rows df). \<forall>c \<in> set r. \<not> isna c"
  proof (intro ballI)
    fix r c
    assume "r \<in> set (rows df)" and c: "c \<in> set r"
    with sub obtain r0 where "r = map fill_cell r0" by auto
    with c show "\<not> isna c" by (auto simp: fill_cell_not_na)
  qed
  have comps: "\<forall>row \<in> set (itertuples df). \<forall>cdx_comp.
      df_row_to_cdx_component row = Inr cdx_comp \<longrightarrow> (\<forall>kv \<in> set cdx_comp. \<not> isna (snd kv))"
  proof (intro ballI allI impI)
    fix row cdx_comp kv
    assume row: "row \<in> set (itertuples df)"
      and p: "df_row_to_cdx_component row = Inr cdx_comp" and kv: "kv \<in> set cdx_comp"
    from row obtain r where r: "r \<in> set (rows df)" and z: "row = zip (columns df) r"
      by (auto simp: itertuples_def)
    have "\<forall>kv \<in> set row. \<not> isna (snd kv)"
    proof
      fix x assume "x \<in> set row"
      with z have "snd x \<in> set r" by (cases x) (auto dest: set_zip_rightD)
      with cells r show "\<not> isna (snd x)" by blast
    qed
    from component_values_not_na [OF p this] kv show "\<not> isna (snd kv)" by blast
  qed
  from j sub fc cells comps show ?thesis by auto
qed

theorem no_missing_values_witness:
  "generate_sbomdb ex_fs ex_loads ex_store (Some ''meta.json'') = Inr ex_canonical
   \<and> list_all (list_all (\<lambda>c. \<not> isna c)) (rows ex_canonical)
   \<and> list_all
         (\<lambda>row. case df_row_to_cdx_component row of
                  Inl e \<Rightarrow> True
                | Inr cdx_comp \<Rightarrow> list_all (\<lambda>kv. \<not> isna (snd kv)) cdx_comp)
         (itertuples ex_canonical)"
  using no_missing_values [OF ex_generate_sbomdb] ex_generate_sbomdb
  by (simp add: list_all_iff split: sum.splits)


section \<open>The license list of a component\<close>

lemmas cdx_defs =
  df_row_to_cdx_component_def getattr_def PackageURL_str_def strip_def strip_slashes_def
  lstrip_seqs.simps lead_len_def white_space_def quote_def quote_char_def is_unreserved_def
  hex_digit_def
  cdx_component_add_licenses_def licenses_entry_from_row_def license_dict_def

lemma ex_row_component: "df_row_to_cdx_component ex_row = Inr ex_component"
  by (simp add: cdx_defs ex_row_def ex_component_def)

lemma split_on_not_Nil: "split_on c s \<noteq> []"
  by (induction s) (auto split: list.splits)

lemma split_on_no_sep: "c \<notin> set w \<Longrightarrow> split_on c w = [w]"
  by (induction w) auto

lemma split_on_append: "c \<notin> set w \<Longrightarrow> split_on c (w @ c # s) = w # split_on c s"
  by (induction w) (auto split: list.splits)

lemma split_on_join_strs:
  "segs \<noteq> [] \<Longrightarrow> \<forall>w \<in> set segs. c \<notin> set w \<Longrightarrow> split_on c (join_strs [c] segs) = segs"
proof (induction segs rule: induct_list012)
  case 1
  then show ?case by simp
next
  case (2 w)
  then show ?case by (simp add: split_on_no_sep)
next
  case (3 w v ws)
  then show ?case by (simp add: split_on_append)
qed

lemma map_of_dict_set: "map_of (dict_set d k v) = (map_of d)(k \<mapsto> v)"
  by (induction d) (auto simp: fun_eq_iff)

lemma component_licenses:
  assumes "df_row_to_cdx_component row = Inr cdx_comp"
  shows "\<exists>ls. licenses_entry_from_row row ''meta_license_short'' ''name'' = Inr ls
           \<and> map_of cdx_comp ''licenses'' = (if ls = [] then None else Some (PList ls))"
proof -
  from assms obtain base where
    a: "cdx_component_add_licenses base row = Inr cdx_comp"
    and b: "map_of base ''licenses'' = None"
    by (auto simp: df_row_to_cdx_component_def raising_eq_Inr)
  from a obtain ls where
    ls: "licenses_entry_from_row row ''meta_license_short'' ''name'' = Inr ls"
    and c: "cdx_comp = (if ls = [] then base else dict_set base ''licenses'' (PList ls))"
    by (auto simp: cdx_component_add_licenses_def raising_eq_Inr split: if_splits)
  from b c have "map_of cdx_comp ''licenses'' = (if ls = [] then None else Some (PList ls))"
    by (simp add: map_of_dict_set)
  with ls show ?thesis by blast
qed

text \<open>
  Claim C3, as the code has it. A projected component has no \<^verbatim>\<open>licenses\<close> key when
  the row has no \<^verbatim>\<open>meta_license_short\<close> field or a falsy one; when the field is the
  non-empty string made of the segments \<open>segs\<close> joined with a semicolon, the key holds
  exactly one entry per segment, in order, empty segments included; an empty list is
  never stored.
\<close>

theorem licenses_per_segment:
  assumes "df_row_to_cdx_component row = Inr cdx_comp"
  shows "((case map_of row ''meta_license_short'' of None \<Rightarrow> True | Some v \<Rightarrow> \<not> truthy v)
            \<longrightarrow> map_of cdx_comp ''licenses'' = None)
       \<and> (\<forall>segs. segs \<noteq> [] \<and> (\<forall>w \<in> set segs. CHR '';'' \<notin> set w)
              \<and> join_strs '';'' segs \<noteq> []
              \<and> map_of row ''meta_license_short'' = Some (PStr (join_strs '';'' segs))
            \<longrightarrow> map_of cdx_comp ''licenses''
                  = Some (PList (map (\<lambda>w. PDict [(''license'', PDict [(''name'', PStr w)])]) segs)))
       \<and> map_of cdx_comp ''licenses'' \<noteq> Some (PList [])"
proof -
  from component_licenses [OF assms] obtain ls where
    ls: "licenses_entry_from_row row ''meta_license_short'' ''name'' = Inr ls"
    and m: "map_of cdx_comp ''licenses'' = (if ls = [] then None else Some (PList ls))"
    by blast
  have a: "(case map_of row ''meta_license_short'' of None \<Rightarrow> True | Some v \<Rightarrow> \<not> truthy v)
            \<longrightarrow> map_of cdx_comp ''licenses'' = None"
    using ls m by (auto simp: licenses_entry_from_row_def split: option.splits if_splits)
  have b: "map_of cdx_comp ''licenses''
        = Some (PList (map (\<lambda>w. PDict [(''license'', PDict [(''name'', PStr w)])]) segs))"
    if "segs \<noteq> []" "\<forall>w \<in> set segs. CHR '';'' \<notin> set w" "join_strs '';'' segs \<noteq> []"
      "map_of row ''meta_license_short'' = Some (PStr (join_strs '';'' segs))" for segs
  proof -
    from that(1,2) have "split_on CHR '';'' (join_strs '';'' segs) = segs"
      by (rule split_on_join_strs)
    with that ls have "ls = map (license_dict ''name'') segs"
      by (simp add: licenses_entry_from_row_def)
    with m that(1) show ?thesis
      by (simp add: license_dict_def [abs_def])
  qed
  have c: "map_of cdx_comp ''licenses'' \<noteq> Some (PList [])"
    using m by simp
  from a b c show ?thesis by blast
qed

theorem licenses_per_segment_witness:
  "df_row_to_cdx_component ex_row = Inr ex_component
   \<and> map_of ex_row ''meta_license_short'' = Some (PStr (join_strs '';'' [''MIT'', ''BSD'']))
   \<and> map_of ex_component ''licenses''
       = Some (PList [PDict [(''license'', PDict [(''name'', PStr ''MIT'')])],
                      PDict [(''license'', PDict [(''name'', PStr ''BSD'')])]])
   \<and> map_of ex_component ''licenses'' \<noteq> Some (PList [])"
proof -
  have h: "[''MIT'', ''BSD''] \<noteq> [] \<and> (\<forall>w \<in> set [''MIT'', ''BSD'']. CHR '';'' \<notin> set w)
      \<and> join_strs '';'' [''MIT'', ''BSD''] \<noteq> []
      \<and> map_of ex_row ''meta_license_short'' = Some (PStr (join_strs '';'' [''MIT'', ''BSD'']))"
    by (simp add: ex_row_def)
  from licenses_per_segment [OF ex_row_component] h
  have "map_of ex_component ''licenses''
      = Some (PList (map (\<lambda>w. PDict [(''license'', PDict [(''name'', PStr w)])]) [''MIT'', ''BSD'']))
    \<and> map_of ex_component ''licenses'' \<noteq> Some (PList [])"
    by blast
  with h ex_row_component show ?thesis by simp
qed

text \<open>
  The field \<^verbatim>\<open>MIT;\<close> has one non-empty segment, and the component gets two license
  entries: the second has the empty name.
\<close>

theorem licenses_empty_segment_counterexample:
  "df_row_to_cdx_component
     [(''store_path'', PStr ''/nix/store/aaa-foo-1.0''), (''pname'', PStr ''foo''),
      (''version'', PStr ''1.0''), (''cpe'', PStr []), (''meta_license_short'', PStr ''MIT;'')]
   = Inr [(''type'', PStr ''application''), (''bom-ref'', PStr ''/nix/store/aaa-foo-1.0''),
          (''name'', PStr ''foo''), (''version'', PStr ''1.0''),
          (''purl'', PStr ''pkg:nix/foo@1.0''), (''cpe'', PStr []),
          (''licenses'', PList [PDict [(''license'', PDict [(''name'', PStr ''MIT'')])],
                                PDict [(''license'', PDict [(''name'', PStr [])])]])]"
  by (simp add: cdx_defs)

section \<open>The fields of a component\<close>

lemma dropWhile_none: "\<forall>c \<in> set s. \<not> P c \<Longrightarrow> dropWhile P s = s"
  by (cases s) auto

lemma lead_len_unreserved:
  assumes "\<forall>w \<in> set seqs. w \<noteq> [] \<and> \<not> is_unreserved (hd w)"
    and "\<forall>c \<in> set s. is_unreserved c"
  shows "lead_len seqs s = 0"
proof -
  have "\<not> prefix w s" if "w \<in> set seqs" for w
  proof
    assume p: "prefix w s"
    from that assms(1) have "w \<noteq> [] \<and> \<not> is_unreserved (hd w)" by blast
    then obtain c w' where w: "w = c # w'" and c: "\<not> is_unreserved c"
      by (cases w) auto
    from p w have "c \<in> set s" by (auto simp: prefix_def)
    with assms(2) c show False by blast
  qed
  then have "find (\<lambda>w. prefix w s) seqs = None"
    by (simp add: find_None_iff)
  then show ?thesis by (simp add: lead_len_def)
qed

lemma white_space_heads: "\<forall>w \<in> set white_space. w \<noteq> [] \<and> \<not> is_unreserved (hd w)"
  by (simp add: white_space_def is_unreserved_def)

lemma white_space_lasts: "\<forall>w \<in> set (map rev white_space). w \<noteq> [] \<and> \<not> is_unreserved (hd w)"
  by (simp add: white_space_def is_unreserved_def)

lemma lstrip_seqs_done: "lead_len seqs (lstrip_seqs seqs s) = 0"
  by (induction seqs s rule: lstrip_seqs.induct) (simp add: lstrip_seqs.simps)

lemma unreserved_not_slash: "is_unreserved c \<Longrightarrow> c \<noteq> CHR ''/''"
  unfolding is_unreserved_def by (simp, elim disjE) simp_all

lemma strip_unreserved: "\<forall>c \<in> set s. is_unreserved c \<Longrightarrow> strip s = s"
  by (simp add: strip_def lstrip_seqs.simps [of _ s] lstrip_seqs.simps [of _ "rev s"]
      lead_len_unreserved white_space_heads white_space_lasts)

lemma strip_no_break_space:
  "strip ([CHR 0x20] @ ''foo'' @ [CHR 0x09, CHR 0xC2, CHR 0xA0, CHR 0xE2, CHR 0x80, CHR 0x83])
     = ''foo''"
  by (simp add: strip_def lstrip_seqs.simps lead_len_def white_space_def)

lemma strip_slashes_unreserved: "\<forall>c \<in> set s. is_unreserved c \<Longrightarrow> strip_slashes s = s"
  by (simp add: strip_slashes_def dropWhile_none unreserved_not_slash)

lemma quote_unreserved: "\<forall>c \<in> set s. is_unreserved c \<Longrightarrow> quote s = s"
  by (induction s) (simp_all add: quote_def quote_char_def)

lemma PackageURL_str_unreserved:
  assumes "pname \<noteq> []" "\<forall>c \<in> set pname. is_unreserved c" "\<forall>c \<in> set version. is_unreserved c"
  shows "PackageURL_str (PStr pname) (PStr version)
         = Inr (''pkg:nix/'' @ pname @ (if version = [] then [] else ''@'' @ version))"
  using assms
  by (simp add: PackageURL_str_def strip_unreserved strip_slashes_unreserved quote_unreserved)

lemma add_licenses_other_keys:
  assumes "cdx_component_add_licenses base row = Inr cdx_comp" and "k \<noteq> ''licenses''"
  shows "map_of cdx_comp k = map_of base k"
  using assms
  by (auto simp: cdx_component_add_licenses_def raising_eq_Inr map_of_dict_set split: if_splits)

text \<open>
  Claim C5, as the code has it. For a row with the four fields, a short name that is a
  non-empty string and a version that is a string, both of letters, digits and
  \<^verbatim>\<open>_.-~\<close> only, the projection is the license step applied to the six fields:
  type \<^verbatim>\<open>application\<close>, the store path as \<^verbatim>\<open>bom-ref\<close>, the short name, the version,
  the package URL \<^verbatim>\<open>pkg:nix/<pname>@<version>\<close> (without \<^verbatim>\<open>@<version>\<close> when the
  version is empty) and the CPE as it is; every component it returns has these values.
\<close>

theorem component_fields:
  assumes "map_of row ''store_path'' = Some store_path"
    and "map_of row ''pname'' = Some (PStr pname)"
    and "map_of row ''version'' = Some (PStr version)"
    and "map_of row ''cpe'' = Some cpe"
    and "pname \<noteq> []"
    and "\<forall>c \<in> set pname. is_unreserved c"
    and "\<forall>c \<in> set version. is_unreserved c"
  shows "df_row_to_cdx_component row =
           cdx_component_add_licenses
             [(''type'', PStr ''application''), (''bom-ref'', store_path), (''name'', PStr pname),
              (''version'', PStr version),
              (''purl'', PStr (''pkg:nix/'' @ pname @ (if version = [] then [] else ''@'' @ version))),
              (''cpe'', cpe)] row
       \<and> (\<forall>cdx_comp. df_row_to_cdx_component row = Inr cdx_comp \<longrightarrow>
             map_of cdx_comp ''type'' = Some (PStr ''application'')
           \<and> map_of cdx_comp ''bom-ref'' = Some store_path
           \<and> map_of cdx_comp ''name'' = Some (PStr pname)
           \<and> map_of cdx_comp ''version'' = Some (PStr version)
           \<and> map_of cdx_comp ''purl''
               = Some (PStr (''pkg:nix/'' @ pname @ (if version = [] then [] else ''@'' @ version)))
           \<and> map_of cdx_comp ''cpe'' = Some cpe)"
proof -
  define base where "base =
    [(''type'', PStr ''application''), (''bom-ref'', store_path), (''name'', PStr pname),
     (''version'', PStr version),
     (''purl'', PStr (''pkg:nix/'' @ pname @ (if version = [] then [] else ''@'' @ version))),
     (''cpe'', cpe)]"
  have p: "df_row_to_cdx_component row = cdx_component_add_licenses base row"
    using assms(1-4) PackageURL_str_unreserved [OF assms(5-7)]
    by (simp add: df_row_to_cdx_component_def getattr_def base_def)
  have f: "map_of cdx_comp ''type'' = Some (PStr ''application'')
           \<and> map_of cdx_comp ''bom-ref'' = Some store_path
           \<and> map_of cdx_comp ''name'' = Some (PStr pname)
           \<and> map_of cdx_comp ''version'' = Some (PStr version)
           \<and> map_of cdx_comp ''purl''
               = Some (PStr (''pkg:nix/'' @ pname @ (if version = [] then [] else ''@'' @ version)))
           \<and> map_of cdx_comp ''cpe'' = Some cpe"
    if "df_row_to_cdx_component row = Inr cdx_comp" for cdx_comp
  proof -
    from that p have a: "cdx_component_add_licenses base row = Inr cdx_comp" by simp
    have "map_of cdx_comp k = map_of base k" if "k \<noteq> ''licenses''" for k
      using a that by (rule add_licenses_other_keys)
    then show ?thesis by (simp add: base_def)
  qed
  from p f show ?thesis unfolding base_def by blast
qed


theorem component_fields_witness:
  "df_row_to_cdx_component
     [(''store_path'', PStr ''/nix/store/ccc-foo-1.2.3''), (''pname'', PStr ''foo''),
      (''version'', PStr ''1.2.3''), (''cpe'', PStr [])]
   = Inr [(''type'', PStr ''application''), (''bom-ref'', PStr ''/nix/store/ccc-foo-1.2.3''),
          (''name'', PStr ''foo''), (''version'', PStr ''1.2.3''),
          (''purl'', PStr ''pkg:nix/foo@1.2.3''), (''cpe'', PStr [])]"
proof -
  let ?row = "[(''store_path'', PStr ''/nix/store/ccc-foo-1.2.3''), (''pname'', PStr ''foo''),
      (''version'', PStr ''1.2.3''), (''cpe'', PStr [])]"
  have u: "''foo'' \<noteq> []" "\<forall>c \<in> set ''foo''. is_unreserved c" "\<forall>c \<in> set ''1.2.3''. is_unreserved c"
    by (simp_all add: is_unreserved_def)
  have "df_row_to_cdx_component ?row =
      cdx_component_add_licenses
        [(''type'', PStr ''application''), (''bom-ref'', PStr ''/nix/store/ccc-foo-1.2.3''),
         (''name'', PStr ''foo''), (''version'', PStr ''1.2.3''),
         (''purl'', PStr (''pkg:nix/'' @ ''foo'' @ (if ''1.2.3'' = [] then [] else ''@'' @ ''1.2.3''))),
         (''cpe'', PStr [])] ?row"
    using component_fields [of ?row "PStr ''/nix/store/ccc-foo-1.2.3''" "''foo''" "''1.2.3''" "PStr []", OF _ _ _ _ u]
    by simp
  then show ?thesis
    by (simp add: cdx_component_add_licenses_def licenses_entry_from_row_def)
qed

text \<open>
  A store path without a version, as hooks and sources have: the package URL has no
  \<^verbatim>\<open>@\<close>. With an empty short name the library raises and no component is built.
\<close>

theorem purl_empty_version_counterexample:
  "df_row_to_cdx_component
     [(''store_path'', PStr ''/nix/store/bbb-hook''), (''pname'', PStr ''hook''),
      (''version'', PStr []), (''cpe'', PStr ''c'')]
   = Inr [(''type'', PStr ''application''), (''bom-ref'', PStr ''/nix/store/bbb-hook''),
          (''name'', PStr ''hook''), (''version'', PStr []),
          (''purl'', PStr ''pkg:nix/hook''), (''cpe'', PStr ''c'')]
   \<and> ''pkg:nix/hook'' \<noteq> ''pkg:nix/'' @ ''hook'' @ ''@'' @ []
   \<and> df_row_to_cdx_component
     [(''store_path'', PStr ''/nix/store/ddd-''), (''pname'', PStr []),
      (''version'', PStr ''1.0''), (''cpe'', PStr [])]
   = Inl ValueError"
  by (simp add: cdx_defs)

section \<open>Placing the root component\<close>

lemma component_store_path:
  "df_row_to_cdx_component row = Inr c \<Longrightarrow> \<exists>sp. map_of row ''store_path'' = Some sp"
  by (auto simp: df_row_to_cdx_component_def raising_eq_Inr getattr_def split: option.splits)

lemma to_cdx_loop_result:
  assumes "map df_row_to_cdx_component rs = map Inr cs"
  shows "to_cdx_loop target rs (root, comps0) =
     Inr (case filter (\<lambda>rc. is_root target (fst rc)) (zip rs cs) of
            [] \<Rightarrow> root
          | m # ms \<Rightarrow> Some (PDict (snd (last (m # ms)))),
          comps0 @ map (\<lambda>rc. PDict (snd rc))
                     (filter (\<lambda>rc. \<not> is_root target (fst rc)) (zip rs cs)))"
  using assms
proof (induction rs arbitrary: cs root comps0)
  case Nil
  then show ?case by simp
next
  case (Cons r rs)
  from Cons.prems obtain c cs' where cs: "cs = c # cs'"
    and c: "df_row_to_cdx_component r = Inr c"
    and rest: "map df_row_to_cdx_component rs = map Inr cs'"
    by (cases cs) auto
  from component_store_path [OF c] obtain sp where sp: "map_of r ''store_path'' = Some sp"
    by blast
  show ?case
  proof (cases "sp = target")
    case True
    with sp have root: "is_root target r" by (simp add: is_root_def)
    have "to_cdx_loop target (r # rs) (root, comps0)
        = to_cdx_loop target rs (Some (PDict c), comps0)"
      using c sp True by (simp add: getattr_def)
    also note Cons.IH [OF rest]
    finally show ?thesis
      using root cs by (simp split: list.splits)
  next
    case False
    with sp have root: "\<not> is_root target r" by (simp add: is_root_def)
    have "to_cdx_loop target (r # rs) (root, comps0)
        = to_cdx_loop target rs (root, comps0 @ [PDict c])"
      using c sp False by (simp add: getattr_def)
    also note Cons.IH [OF rest]
    finally show ?thesis
      using root cs by simp
  qed
qed

text \<open>
  Claim C4. When every row of the canonical frame projects (\<open>cs\<close> are the components of
  the rows, in order), the assembler returns the document in which
  \<^verbatim>\<open>metadata.component\<close> is the component of the last row whose store path equals the
  target path, and is not set when no row matches, and in which \<^verbatim>\<open>components\<close> holds
  the components of all other rows in the order of the frame.
\<close>

theorem to_cdx_root_placement:
  assumes "map df_row_to_cdx_component (itertuples df) = map Inr cs"
  shows "to_cdx df target_path uuid4 =
     Inr (PDict
       [(''bomFormat'', PStr ''CycloneDX''),
        (''specVersion'', PStr ''1.3''),
        (''version'', PInt 1),
        (''serialNumber'', PStr (''urn:uuid:'' @ uuid4)),
        (''metadata'',
           PDict ((''tools'',
                   PList [PDict [(''vendor'', PStr ''TII''), (''name'', PStr ''sbomnix''),
                                 (''version'', PStr ''0.1.0'')]])
                  # (case filter (\<lambda>rc. is_root target_path (fst rc)) (zip (itertuples df) cs) of
                       [] \<Rightarrow> []
                     | m # ms \<Rightarrow> [(''component'', PDict (snd (last (m # ms))))]))),
        (''components'',
           PList (map (\<lambda>rc. PDict (snd rc))
                    (filter (\<lambda>rc. \<not> is_root target_path (fst rc)) (zip (itertuples df) cs))))])"
  by (simp add: to_cdx_def to_cdx_loop_result [OF assms] split: list.splits)

lemma ex_three_projections:
  "map df_row_to_cdx_component (itertuples ex_three) = map Inr ex_three_components"
  by (simp add: cdx_defs itertuples_def ex_three_def ex_three_components_def)

theorem to_cdx_root_placement_witness:
  "map df_row_to_cdx_component (itertuples ex_three) = map Inr ex_three_components
   \<and> to_cdx ex_three (PStr ''/nix/store/bbb-bar-2.0'') ''1b4e28ba-2fa1-41d2-883f-0016d3cca427'' =
     Inr (PDict
       [(''bomFormat'', PStr ''CycloneDX''),
        (''specVersion'', PStr ''1.3''),
        (''version'', PInt 1),
        (''serialNumber'', PStr ''urn:uuid:1b4e28ba-2fa1-41d2-883f-0016d3cca427''),
        (''metadata'',
           PDict [(''tools'',
                   PList [PDict [(''vendor'', PStr ''TII''), (''name'', PStr ''sbomnix''),
                                 (''version'', PStr ''0.1.0'')]]),
                  (''component'', PDict (ex_three_components ! 1))]),
        (''components'',
           PList [PDict (ex_three_components ! 0), PDict (ex_three_components ! 2)])])"
  using to_cdx_root_placement [OF ex_three_projections, of "PStr ''/nix/store/bbb-bar-2.0''"
      "''1b4e28ba-2fa1-41d2-883f-0016d3cca427''"] ex_three_projections
  by (simp add: itertuples_def ex_three_def ex_three_components_def is_root_def)

section \<open>The rows of the catalog loader\<close>

lemma str_join_strs: "list_all is_str xs \<Longrightarrow> str_join sep xs = Inr (join_strs sep (map str_of xs))"
proof (induction xs rule: induct_list012)
  case 1
  then show ?case by simp
next
  case (2 x)
  then show ?case by (cases x) simp_all
next
  case (3 x y zs)
  then show ?case by (cases x) simp_all
qed

lemma filter_truthy_single:
  "filter truthy [dict_get d key (PStr [])]
     = filter truthy (case map_of d key of None \<Rightarrow> [] | Some v \<Rightarrow> [v])"
  by (simp add: dict_get_def split: option.splits)

lemma parse_meta_entry_spec:
  "parse_meta_entry (dict_get m field (PDict [])) key = spec_kept (map_of m field) key"
proof (cases "map_of m field")
  case None
  then show ?thesis
    by (simp add: parse_meta_entry_def spec_kept_def dict_get_def)
next
  case (Some v)
  have "filter truthy (map (\<lambda>x. case x of PDict d \<Rightarrow> dict_get d key (PStr []) | _ \<Rightarrow> x) xs)
      = filter truthy (concat (map (\<lambda>x. case x of
                         PDict d \<Rightarrow> (case map_of d key of None \<Rightarrow> [] | Some v \<Rightarrow> [v])
                       | _ \<Rightarrow> [x]) xs))" for xs
    by (induction xs) (auto simp: dict_get_def split: pyval.splits option.splits)
  with Some show ?thesis
    by (cases v) (simp_all add: parse_meta_entry_def spec_kept_def dict_get_def filter_truthy_single
        split: option.splits)
qed

lemma meta_row_wf:
  assumes "wf_entry pkg"
  shows "meta_row nixpkg_name pkg = Inr (spec_meta_row nixpkg_name pkg)"
proof -
  from assms obtain d where pkg: "pkg = PDict d"
    by (cases pkg) (simp_all add: wf_entry_def)
  define m where "m = entry_meta pkg"
  from assms pkg have meta: "dict_get d ''meta'' (PDict []) = PDict m"
    by (auto simp: wf_entry_def entry_fields_def entry_meta_def m_def dict_get_def
        split: option.splits pyval.splits)
  from assms have s:
    "list_all is_str (spec_kept (map_of m ''license'') ''shortName'')"
    "list_all is_str (spec_kept (map_of m ''license'') ''spdxId'')"
    "list_all is_str (spec_kept (map_of m ''maintainers'') ''email'')"
    by (simp_all add: wf_entry_def m_def)
  have em: "entry_meta (PDict d) = m"
    by (simp add: m_def pkg)
  show ?thesis
    unfolding meta_row_def spec_meta_row_def spec_joined_def
    by (simp add: pkg meta parse_meta_entry_spec str_join_strs [OF s(1)] str_join_strs [OF s(2)]
        str_join_strs [OF s(3)] entry_fields_def em)
qed

lemma meta_rows_wf:
  "\<forall>kp \<in> set json_dict. wf_entry (snd kp)
     \<Longrightarrow> meta_rows json_dict = Inr (map (\<lambda>kp. spec_meta_row (fst kp) (snd kp)) json_dict)"
  by (induction json_dict) (auto simp: meta_row_wf)

text \<open>
  Claim C7, as the code has it. For a readable file whose content decodes to a mapping of
  entries that the loader accepts, the loader returns the frame with one row per top-level
  key, in the order of the mapping: the key, the \<^verbatim>\<open>name\<close>, \<^verbatim>\<open>pname\<close> and
  \<^verbatim>\<open>version\<close> fields (the empty string when absent), home page and position, and the
  three columns that join with a semicolon the non-falsy values extracted from
  \<^verbatim>\<open>meta.license\<close> and \<^verbatim>\<open>meta.maintainers\<close>.
\<close>

theorem parse_json_metadata_rows:
  assumes "fs json_filename = Text content"
    and "loads content = Decoded (PDict json_dict)"
    and "\<forall>kp \<in> set json_dict. wf_entry (snd kp)"
  shows "parse_json_metadata fs loads json_filename =
     Inr \<lparr>columns = (if json_dict = [] then [] else meta_columns),
          rows = map (\<lambda>kp. spec_meta_row (fst kp) (snd kp)) json_dict\<rparr>"
  using assms(1,2) meta_rows_wf [OF assms(3)]
  by (simp add: parse_json_metadata_def)

lemmas spec_defs =
  wf_entry_def spec_meta_row_def spec_joined_def spec_kept_def entry_fields_def entry_meta_def
  dict_get_def

theorem parse_json_metadata_rows_witness:
  "parse_json_metadata ex_fs ex_loads ''meta.json'' =
     Inr \<lparr>columns = meta_columns,
          rows = [[PStr ''foo'', PStr ''foo-1.0'', PStr ''foo'', PStr [], PStr [], PStr [],
                   PStr ''MIT;BSD'', PStr ''BSD'', PStr []],
                  [PStr ''foo_alias'', PStr ''foo-1.0'', PStr [], PStr [], PStr [], PStr [],
                   PStr ''GPL'', PStr [], PStr []]]\<rparr>"
proof -
  have f: "ex_fs ''meta.json'' = Text ''catalog''"
    by (simp add: ex_fs_def)
  have l: "ex_loads ''catalog'' = Decoded (PDict
       [(''foo'', PDict [(''name'', PStr ''foo-1.0''), (''pname'', PStr ''foo''),
                        (''meta'', PDict [(''license'',
                            PList [PDict [(''shortName'', PStr ''MIT'')], PStr ''BSD''])])]),
        (''foo_alias'', PDict [(''name'', PStr ''foo-1.0''),
                        (''meta'', PDict [(''license'', PDict [(''shortName'', PStr ''GPL'')])])])])"
    by (simp add: ex_loads_def ex_loads_as_def ex_catalog_def)
  show ?thesis
    using parse_json_metadata_rows [of ex_fs "''meta.json''" "''catalog''" ex_loads, OF f l]
    by (simp add: spec_defs)
qed

text \<open>
  A top-level mapping with an entry that is a number, and one whose license list holds a
  number: the loader raises and returns no row.
\<close>

theorem parse_json_metadata_rows_counterexample:
  "parse_json_metadata ex_fs (ex_loads_as (PDict [(''foo'', PInt 1)])) ''meta.json''
     = Inl AttributeError
   \<and> parse_json_metadata ex_fs
       (ex_loads_as (PDict [(''foo'', PDict [(''meta'', PDict [(''license'', PList [PInt 5])])])]))
       ''meta.json''
     = Inl TypeError"
  by (simp add: model_defs ex_defs)

section \<open>The exceptions of the catalog loader\<close>

lemma py_get_error: "py_get x k d = Inl e \<Longrightarrow> e = AttributeError"
  by (cases x) simp_all

lemma str_join_error: "str_join sep xs = Inl e \<Longrightarrow> e = TypeError"
  by (induction sep xs rule: str_join.induct) (auto split: sum.splits)

lemma meta_row_error: "meta_row k pkg = Inl e \<Longrightarrow> e = AttributeError \<or> e = TypeError"
  unfolding meta_row_def raising_eq_Inl
  by (elim disjE exE conjE) (auto dest: py_get_error str_join_error)

lemma meta_rows_error: "meta_rows json_dict = Inl e \<Longrightarrow> e = AttributeError \<or> e = TypeError"
  by (induction json_dict) (auto split: sum.splits dest: meta_row_error)

lemma wf_entry_missing_fields:
  assumes "map_of d ''meta'' = None
     \<or> (\<exists>m. map_of d ''meta'' = Some (PDict m)
              \<and> map_of m ''license'' = None \<and> map_of m ''maintainers'' = None)"
  shows "wf_entry (PDict d)"
  using assms
  by (auto simp: wf_entry_def entry_fields_def entry_meta_def spec_kept_def)

lemma parse_json_metadata_decoded:
  assumes "fs p = Text content" and "loads content = Decoded v"
  shows "parse_json_metadata fs loads p =
     (case v of
        PDict json_dict \<Rightarrow>
          (case meta_rows json_dict of
             Inl e \<Rightarrow> Inl e
           | Inr rs \<Rightarrow> Inr \<lparr>columns = (if json_dict = [] then [] else meta_columns), rows = rs\<rparr>)
      | _ \<Rightarrow> Inl AttributeError)"
  using assms by (cases v) (simp_all add: parse_json_metadata_def)

lemma parse_json_metadata_decoded_error:
  assumes "fs p = Text content" and "loads content = Decoded v"
    and "parse_json_metadata fs loads p = Inl e"
  shows "e = AttributeError \<or> e = TypeError"
proof -
  note eq = parse_json_metadata_decoded [of fs p content loads v, OF assms(1,2)]
  from assms(3) show ?thesis
    unfolding eq by (cases v) (auto split: sum.splits dest: meta_rows_error)
qed

text \<open>
  Claim C8, as the code has it. The loader raises \<^verbatim>\<open>OSError\<close> exactly when the file
  cannot be opened or read, \<^verbatim>\<open>UnicodeDecodeError\<close> exactly when its bytes are no UTF-8
  text, \<^verbatim>\<open>JSONDecodeError\<close> exactly when \<^verbatim>\<open>json.loads\<close> raises it on the text, and
  any other exception of \<^verbatim>\<open>json.loads\<close> exactly when \<^verbatim>\<open>json.loads\<close> raises that one.
  Once the text is decoded, only \<^verbatim>\<open>AttributeError\<close> and \<^verbatim>\<open>TypeError\<close> can be raised,
  and a decoded value that is no mapping raises \<^verbatim>\<open>AttributeError\<close>. Entries that are
  objects with missing fields (no \<^verbatim>\<open>meta\<close>, or a \<^verbatim>\<open>meta\<close> object without license
  and maintainers; any of name, pname, version, home page, position absent) are never
  rejected: each gives its row with the defaults.
\<close>

theorem parse_json_metadata_errors:
  "(parse_json_metadata fs loads p = Inl OSError \<longleftrightarrow> fs p = Unreadable)
   \<and> (parse_json_metadata fs loads p = Inl UnicodeDecodeError \<longleftrightarrow> fs p = NotUTF8)
   \<and> (parse_json_metadata fs loads p = Inl JSONDecodeError
        \<longleftrightarrow> (\<exists>content. fs p = Text content \<and> loads content = Invalid))
   \<and> (\<forall>name. parse_json_metadata fs loads p = Inl (OtherError name)
        \<longleftrightarrow> (\<exists>content. fs p = Text content \<and> loads content = Raised name))
   \<and> (\<forall>content v e. fs p = Text content \<and> loads content = Decoded v
          \<and> parse_json_metadata fs loads p = Inl e
        \<longrightarrow> e = AttributeError \<or> e = TypeError)
   \<and> (\<forall>content v. fs p = Text content \<and> loads content = Decoded v \<and> (\<forall>d. v \<noteq> PDict d)
        \<longrightarrow> parse_json_metadata fs loads p = Inl AttributeError)
   \<and> (\<forall>content json_dict.
         fs p = Text content \<and> loads content = Decoded (PDict json_dict)
         \<and> (\<forall>kp \<in> set json_dict. \<exists>d. snd kp = PDict d
               \<and> (map_of d ''meta'' = None
                   \<or> (\<exists>m. map_of d ''meta'' = Some (PDict m)
                          \<and> map_of m ''license'' = None \<and> map_of m ''maintainers'' = None)))
        \<longrightarrow> parse_json_metadata fs loads p =
              Inr \<lparr>columns = (if json_dict = [] then [] else meta_columns),
                   rows = map (\<lambda>kp. spec_meta_row (fst kp) (snd kp)) json_dict\<rparr>)"
proof -
  have cases: "fs p = Unreadable \<or> fs p = NotUTF8
      \<or> (\<exists>content. fs p = Text content \<and> loads content = Invalid)
      \<or> (\<exists>content name. fs p = Text content \<and> loads content = Raised name)
      \<or> (\<exists>content v. fs p = Text content \<and> loads content = Decoded v)"
  proof (cases "fs p")
    case (Text content)
    then show ?thesis by (cases "loads content") auto
  qed simp_all
  have r1: "parse_json_metadata fs loads p = Inl OSError" if "fs p = Unreadable"
    using that by (simp add: parse_json_metadata_def)
  have r2: "parse_json_metadata fs loads p = Inl UnicodeDecodeError" if "fs p = NotUTF8"
    using that by (simp add: parse_json_metadata_def)
  have r3: "parse_json_metadata fs loads p = Inl JSONDecodeError"
    if "fs p = Text content" "loads content = Invalid" for content
    using that by (simp add: parse_json_metadata_def)
  have r4: "parse_json_metadata fs loads p = Inl (OtherError name)"
    if "fs p = Text content" "loads content = Raised name" for content name
    using that by (simp add: parse_json_metadata_def)
  have r5: "e = AttributeError \<or> e = TypeError"
    if "fs p = Text content" "loads content = Decoded v" "parse_json_metadata fs loads p = Inl e"
    for content v e
    using that by (rule parse_json_metadata_decoded_error)
  have c1: "parse_json_metadata fs loads p = Inl OSError \<longleftrightarrow> fs p = Unreadable"
    using cases r1 r2 r3 r4 r5 by (elim disjE exE conjE) fastforce+
  have c2: "parse_json_metadata fs loads p = Inl UnicodeDecodeError \<longleftrightarrow> fs p = NotUTF8"
    using cases r1 r2 r3 r4 r5 by (elim disjE exE conjE) fastforce+
  have c3: "parse_json_metadata fs loads p = Inl JSONDecodeError
        \<longleftrightarrow> (\<exists>content. fs p = Text content \<and> loads content = Invalid)"
    using cases r1 r2 r3 r4 r5 by (elim disjE exE conjE) fastforce+
  have c4: "parse_json_metadata fs loads p = Inl (OtherError name)
        \<longleftrightarrow> (\<exists>content. fs p = Text content \<and> loads content = Raised name)" for name
    using cases r1 r2 r3 r4 r5 by (elim disjE exE conjE) fastforce+
  have c5: "parse_json_metadata fs loads p = Inl AttributeError"
    if "fs p = Text content \<and> loads content = Decoded v \<and> (\<forall>d. v \<noteq> PDict d)" for content v
    using that by (cases v) (simp_all add: parse_json_metadata_def)
  have c6: "parse_json_metadata fs loads p =
              Inr \<lparr>columns = (if json_dict = [] then [] else meta_columns),
                   rows = map (\<lambda>kp. spec_meta_row (fst kp) (snd kp)) json_dict\<rparr>"
    if a: "fs p = Text content \<and> loads content = Decoded (PDict json_dict)
         \<and> (\<forall>kp \<in> set json_dict. \<exists>d. snd kp = PDict d
               \<and> (map_of d ''meta'' = None
                   \<or> (\<exists>m. map_of d ''meta'' = Some (PDict m)
                          \<and> map_of m ''license'' = None \<and> map_of m ''maintainers'' = None)))"
    for content json_dict
  proof -
    from a have "\<forall>kp \<in> set json_dict. wf_entry (snd kp)"
      using wf_entry_missing_fields by metis
    from meta_rows_wf [OF this] a show ?thesis
      by (simp add: parse_json_metadata_def)
  qed
  from c1 c2 c3 c4 r5 c5 c6 show ?thesis
    by (intro conjI allI impI) blast+
qed

theorem parse_json_metadata_errors_witness:
  "parse_json_metadata ex_fs ex_loads ''missing.json'' = Inl OSError
   \<and> parse_json_metadata ex_fs ex_loads ''latin1.json'' = Inl UnicodeDecodeError
   \<and> parse_json_metadata ex_fs ex_loads ''broken.json'' = Inl JSONDecodeError
   \<and> parse_json_metadata ex_fs ex_loads ''deep.json'' = Inl (OtherError ''RecursionError'')
   \<and> parse_json_metadata ex_fs (ex_loads_as (PStr ''text'')) ''meta.json'' = Inl AttributeError
   \<and> parse_json_metadata ex_fs (ex_loads_as (PDict [(''foo'', PDict [])])) ''meta.json''
       = Inr \<lparr>columns = meta_columns,
              rows = [[PStr ''foo'', PStr [], PStr [], PStr [], PStr [], PStr [], PStr [],
                       PStr [], PStr []]]\<rparr>"
proof -
  have "ex_fs ''missing.json'' = Unreadable"
    by (simp add: ex_fs_def)
  then have 1: "parse_json_metadata ex_fs ex_loads ''missing.json'' = Inl OSError"
    using parse_json_metadata_errors [of ex_fs ex_loads "''missing.json''"]
    by blast
  have "ex_fs ''latin1.json'' = NotUTF8"
    by (simp add: ex_fs_def)
  then have 2: "parse_json_metadata ex_fs ex_loads ''latin1.json'' = Inl UnicodeDecodeError"
    using parse_json_metadata_errors [of ex_fs ex_loads "''latin1.json''"]
    by blast
  have "ex_fs ''broken.json'' = Text ''{'' \<and> ex_loads ''{'' = Invalid"
    by (simp add: ex_fs_def ex_loads_def ex_loads_as_def)
  then have 3: "parse_json_metadata ex_fs ex_loads ''broken.json'' = Inl JSONDecodeError"
    using parse_json_metadata_errors [of ex_fs ex_loads "''broken.json''"]
    by blast
  have "ex_fs ''deep.json'' = Text ''deep'' \<and> ex_loads ''deep'' = Raised ''RecursionError''"
    by (simp add: ex_fs_def ex_loads_def ex_loads_as_def)
  then have 4: "parse_json_metadata ex_fs ex_loads ''deep.json''
      = Inl (OtherError ''RecursionError'')"
    using parse_json_metadata_errors [of ex_fs ex_loads "''deep.json''"]
    by blast
  have "ex_fs ''meta.json'' = Text ''catalog''
      \<and> ex_loads_as (PStr ''text'') ''catalog'' = Decoded (PStr ''text'')
      \<and> (\<forall>d. PStr ''text'' \<noteq> PDict d)"
    by (simp add: ex_fs_def ex_loads_as_def)
  then have 5: "parse_json_metadata ex_fs (ex_loads_as (PStr ''text'')) ''meta.json''
      = Inl AttributeError"
    using parse_json_metadata_errors [of ex_fs "ex_loads_as (PStr ''text'')" "''meta.json''"]
    by blast
  have "ex_fs ''meta.json'' = Text ''catalog''
      \<and> ex_loads_as (PDict [(''foo'', PDict [])]) ''catalog'' = Decoded (PDict [(''foo'', PDict [])])
      \<and> (\<forall>kp \<in> set [(''foo'', PDict [])]. \<exists>d. snd kp = PDict d
               \<and> (map_of d ''meta'' = None
                   \<or> (\<exists>m. map_of d ''meta'' = Some (PDict m)
                          \<and> map_of m ''license'' = None \<and> map_of m ''maintainers'' = None)))"
    by (simp add: ex_fs_def ex_loads_as_def)
  then have "parse_json_metadata ex_fs (ex_loads_as (PDict [(''foo'', PDict [])])) ''meta.json''
       = Inr \<lparr>columns = (if [(''foo'', PDict [])] = [] then [] else meta_columns),
              rows = map (\<lambda>kp. spec_meta_row (fst kp) (snd kp)) [(''foo'', PDict [])]\<rparr>"
    using parse_json_metadata_errors
      [of ex_fs "ex_loads_as (PDict [(''foo'', PDict [])])" "''meta.json''"]
    by blast
  then have 6: "parse_json_metadata ex_fs (ex_loads_as (PDict [(''foo'', PDict [])])) ''meta.json''
       = Inr \<lparr>columns = meta_columns,
              rows = [[PStr ''foo'', PStr [], PStr [], PStr [], PStr [], PStr [], PStr [],
                       PStr [], PStr []]]\<rparr>"
    by (simp add: spec_defs)
  from 1 2 3 4 5 6 show ?thesis by (intro conjI)
qed

text \<open>
  A JSON list at the top level raises \<^verbatim>\<open>AttributeError\<close>, not the decoder's error; and
  the same exception is raised for a top-level mapping of valid JSON whose entry is a
  string.
\<close>

theorem parse_json_metadata_errors_counterexample:
  "parse_json_metadata ex_fs (ex_loads_as (PList [])) ''meta.json'' = Inl AttributeError
   \<and> parse_json_metadata ex_fs (ex_loads_as (PDict [(''foo'', PStr ''bar'')])) ''meta.json''
       = Inl AttributeError
   \<and> AttributeError \<noteq> JSONDecodeError"
  by (simp add: model_defs ex_defs)


section \<open>Determinism\<close>

lemma parse_json_metadata_cong:
  "fs p = fs' p \<Longrightarrow> parse_json_metadata fs loads p = parse_json_metadata fs' loads p"
  by (simp add: parse_json_metadata_def)

lemma component_cong:
  assumes "map_of row ''store_path'' = map_of row' ''store_path''"
    and "map_of row ''pname'' = map_of row' ''pname''"
    and "map_of row ''version'' = map_of row' ''version''"
    and "map_of row ''cpe'' = map_of row' ''cpe''"
    and "map_of row ''meta_license_short'' = map_of row' ''meta_license_short''"
  shows "df_row_to_cdx_component row = df_row_to_cdx_component row'"
  using assms
  by (simp add: df_row_to_cdx_component_def getattr_def cdx_component_add_licenses_def
      licenses_entry_from_row_def)

lemma to_cdx_without_serial:
  "without_serial (to_cdx df target_path u1) = without_serial (to_cdx df target_path u2)"
  by (cases "to_cdx_loop target_path (itertuples df) (None, [])")
    (simp_all add: to_cdx_def without_serial_def)

lemma to_cdx_serial:
  "to_cdx df target_path u = Inr doc \<Longrightarrow>
     \<exists>d. doc = PDict d \<and> map_of d ''serialNumber'' = Some (PStr (''urn:uuid:'' @ u))"
  by (cases "to_cdx_loop target_path (itertuples df) (None, [])")
    (auto simp: to_cdx_def)

text \<open>
  Claim C9. The merge and the projection are functions of their inputs: with a metadata
  path the canonical frame depends on the file system only through the content of that
  file, without one it depends on the store frame alone; the component of a row depends
  only on the five fields that the projection reads. Two runs of the assembler on the
  same frame and target that draw different random identifiers raise the same exception
  or return documents that are equal once the \<^verbatim>\<open>serialNumber\<close> key is removed, and
  that key holds the identifier.
\<close>

theorem merge_and_projection_deterministic:
  "(fs p = fs' p \<longrightarrow>
      generate_sbomdb fs loads df_store (Some p) = generate_sbomdb fs' loads df_store (Some p))
   \<and> generate_sbomdb fs loads df_store None = generate_sbomdb fs' loads' df_store None
   \<and> (map_of row ''store_path'' = map_of row' ''store_path''
        \<and> map_of row ''pname'' = map_of row' ''pname''
        \<and> map_of row ''version'' = map_of row' ''version''
        \<and> map_of row ''cpe'' = map_of row' ''cpe''
        \<and> map_of row ''meta_license_short'' = map_of row' ''meta_license_short''
      \<longrightarrow> df_row_to_cdx_component row = df_row_to_cdx_component row')
   \<and> without_serial (to_cdx df target_path u1) = without_serial (to_cdx df target_path u2)
   \<and> (\<forall>doc. to_cdx df target_path u1 = Inr doc \<longrightarrow>
         (\<exists>d. doc = PDict d \<and> map_of d ''serialNumber'' = Some (PStr (''urn:uuid:'' @ u1))))"
proof (intro conjI impI allI)
  assume "fs p = fs' p"
  then have "parse_json_metadata fs loads p = parse_json_metadata fs' loads p"
    by (rule parse_json_metadata_cong)
  then show "generate_sbomdb fs loads df_store (Some p) = generate_sbomdb fs' loads df_store (Some p)"
    by (simp add: generate_sbomdb_def df_sbom_def df_sbomdb_def)
next
  show "generate_sbomdb fs loads df_store None = generate_sbomdb fs' loads' df_store None"
    by (simp add: generate_sbomdb_def df_sbom_def df_sbomdb_def)
next
  assume "map_of row ''store_path'' = map_of row' ''store_path''
        \<and> map_of row ''pname'' = map_of row' ''pname''
        \<and> map_of row ''version'' = map_of row' ''version''
        \<and> map_of row ''cpe'' = map_of row' ''cpe''
        \<and> map_of row ''meta_license_short'' = map_of row' ''meta_license_short''"
  then show "df_row_to_cdx_component row = df_row_to_cdx_component row'"
    by (intro component_cong) simp_all
next
  show "without_serial (to_cdx df target_path u1) = without_serial (to_cdx df target_path u2)"
    by (rule to_cdx_without_serial)
next
  fix doc
  assume "to_cdx df target_path u1 = Inr doc"
  then show "\<exists>d. doc = PDict d \<and> map_of d ''serialNumber'' = Some (PStr (''urn:uuid:'' @ u1))"
    by (rule to_cdx_serial)
qed

theorem merge_and_projection_deterministic_witness:
  "ex_fs ''meta.json'' = ex_fs_only ''meta.json''
   \<and> generate_sbomdb ex_fs ex_loads ex_store (Some ''meta.json'')
       = generate_sbomdb ex_fs_only ex_loads ex_store (Some ''meta.json'')
   \<and> df_row_to_cdx_component ex_row
       = df_row_to_cdx_component
           [(''meta_license_short'', PStr ''MIT;BSD''), (''cpe'', PStr []),
            (''version'', PStr ''1.0''), (''pname'', PStr ''foo''),
            (''store_path'', PStr ''/nix/store/aaa-foo-1.0'')]
   \<and> without_serial (to_cdx ex_three (PStr ''/nix/store/bbb-bar-2.0'')
                        ''1b4e28ba-2fa1-41d2-883f-0016d3cca427'')
       = without_serial (to_cdx ex_three (PStr ''/nix/store/bbb-bar-2.0'')
                        ''9c5b94b1-35ad-49bb-b118-8e8fc24abf80'')"
proof -
  have f: "ex_fs ''meta.json'' = ex_fs_only ''meta.json''"
    by (simp add: ex_fs_def ex_fs_only_def)
  let ?row' = "[(''meta_license_short'', PStr ''MIT;BSD''), (''cpe'', PStr []),
            (''version'', PStr ''1.0''), (''pname'', PStr ''foo''),
            (''store_path'', PStr ''/nix/store/aaa-foo-1.0'')]"
  have r: "map_of ex_row ''store_path'' = map_of ?row' ''store_path''
        \<and> map_of ex_row ''pname'' = map_of ?row' ''pname''
        \<and> map_of ex_row ''version'' = map_of ?row' ''version''
        \<and> map_of ex_row ''cpe'' = map_of ?row' ''cpe''
        \<and> map_of ex_row ''meta_license_short'' = map_of ?row' ''meta_license_short''"
    by (simp add: ex_row_def)
  note t = merge_and_projection_deterministic
      [of ex_fs "''meta.json''" ex_fs_only ex_loads ex_store ex_loads ex_row ?row' ex_three
        "PStr ''/nix/store/bbb-bar-2.0''" "''1b4e28ba-2fa1-41d2-883f-0016d3cca427''"
        "''9c5b94b1-35ad-49bb-b118-8e8fc24abf80''"]
  have g: "generate_sbomdb ex_fs ex_loads ex_store (Some ''meta.json'')
       = generate_sbomdb ex_fs_only ex_loads ex_store (Some ''meta.json'')"
    by (rule t [THEN conjunct1, THEN mp, OF f])
  have c: "df_row_to_cdx_component ex_row = df_row_to_cdx_component ?row'"
    by (rule t [THEN conjunct2, THEN conjunct2, THEN conjunct1, THEN mp, OF r])
  have w: "without_serial (to_cdx ex_three (PStr ''/nix/store/bbb-bar-2.0'')
                        ''1b4e28ba-2fa1-41d2-883f-0016d3cca427'')
       = without_serial (to_cdx ex_three (PStr ''/nix/store/bbb-bar-2.0'')
                        ''9c5b94b1-35ad-49bb-b118-8e8fc24abf80'')"
    by (rule t [THEN conjunct2, THEN conjunct2, THEN conjunct2, THEN conjunct1])
  from f g c w show ?thesis
    by (intro conjI)
qed

section \<open>The rows of the join that survive\<close>

lemma cell_map: "cell cols (map f r) c = map_option f (cell cols r c)"
  unfolding cell_def
proof (induction cols arbitrary: r)
  case Nil
  then show ?case by simp
next
  case (Cons a cols)
  then show ?case by (cases r) simp_all
qed

lemma cell_append_left:
  assumes "length l = length cols" and "c \<in> set cols"
  shows "cell (cols @ cols') (l @ x) c = cell cols l c"
proof -
  from assms have "c \<in> dom (map_of (zip cols l))"
    by simp
  then show ?thesis
    using assms(1) by (auto simp: cell_def map_add_dom_app_simps)
qed

lemma find_append: "find P (xs @ ys) = (case find P xs of None \<Rightarrow> find P ys | Some x \<Rightarrow> Some x)"
  by (induction xs) auto

lemma find_none_filter: "(filter P xs = []) = (find P xs = None)"
  by (induction xs) auto

lemma find_hd_filter: "filter P xs \<noteq> [] \<Longrightarrow> find P xs = Some (hd (filter P xs))"
  by (induction xs) auto

lemma find_concat_map:
  assumes "\<forall>x \<in> set xs. f x \<noteq> [] \<and> (\<forall>y \<in> set (f x). key y = K x)"
  shows "find (\<lambda>y. key y = k) (concat (map f xs))
           = map_option (\<lambda>x. hd (f x)) (find (\<lambda>x. K x = k) xs)"
  using assms
proof (induction xs)
  case Nil
  then show ?case by simp
next
  case (Cons x xs)
  from Cons.prems obtain a as where fx: "f x = a # as" and a: "key a = K x"
    and all: "\<forall>y \<in> set (f x). key y = K x"
    by (cases "f x") auto
  from Cons have IH: "find (\<lambda>y. key y = k) (concat (map f xs))
           = map_option (\<lambda>x. hd (f x)) (find (\<lambda>x. K x = k) xs)"
    by simp
  show ?case
  proof (cases "K x = k")
    case True
    with fx a show ?thesis by (simp add: find_append)
  next
    case False
    with all have "find (\<lambda>y. key y = k) (f x) = None"
      by (auto simp: find_None_iff)
    with False IH show ?thesis by (simp add: find_append)
  qed
qed

lemma find_distinct:
  "distinct (map K xs) \<Longrightarrow> x \<in> set xs \<Longrightarrow> find (\<lambda>y. K y = K x) xs = Some x"
  by (induction xs) (auto simp: image_iff)

lemma keep_first_member:
  assumes "find (\<lambda>y. key y = key r) ys = Some r"
  shows "r \<in> set (keep_first key [] ys)"
proof -
  from assms have "r \<in> set ys"
    by (auto simp: find_Some_iff)
  then have "key r \<in> key ` set (keep_first key [] ys)"
    by (simp add: keep_first_keys)
  then obtain r' where r': "r' \<in> set (keep_first key [] ys)" and k: "key r' = key r"
    by auto
  from keep_first_find [OF r'] k assms show ?thesis
    using r' by simp
qed

lemma keep_first_all:
  "distinct (map key ys) \<Longrightarrow> key ` set ys \<inter> set seen = {} \<Longrightarrow> keep_first key seen ys = ys"
  by (induction ys arbitrary: seen) auto

lemma join_row_hd:
  "join_row left right l =
     (l @ (case find (\<lambda>m. key_match (cell (columns left) l ''name'')
                                    (cell (columns right) m ''name'')) (rows right) of
             None \<Rightarrow> replicate (length (filter (\<lambda>c. c \<noteq> ''name'') (columns right))) PNaN
           | Some m \<Rightarrow> drop_col (columns right) ''name'' m))
     # tl (join_row left right l)"
proof -
  let ?P = "\<lambda>m. key_match (cell (columns left) l ''name'') (cell (columns right) m ''name'')"
  show ?thesis
  proof (cases "filter ?P (rows right) = []")
    case True
    then have "find ?P (rows right) = None" by (simp add: find_none_filter)
    with True show ?thesis by (simp add: join_row_def)
  next
    case False
    then have "find ?P (rows right) = Some (hd (filter ?P (rows right)))"
      by (rule find_hd_filter)
    with False show ?thesis
      by (cases "filter ?P (rows right)") (simp_all add: join_row_def Let_def)
  qed
qed

lemma join_row_prefix: "j \<in> set (join_row left right l) \<Longrightarrow> \<exists>x. j = l @ x"
  by (auto simp: join_row_def Let_def split: if_splits)

lemma joined_key:
  assumes "length l = length (columns left)" and "''store_path'' \<in> set (columns left)"
    and "j \<in> set (join_row left right l)"
  shows "cell (merged_columns (columns left) (columns right)) (map fill_cell j) ''store_path''
           = filled_store_path left l"
proof -
  from join_row_prefix [OF assms(3)] obtain x where "j = l @ x" by blast
  with assms(1,2) show ?thesis
    by (simp add: cell_map merged_columns_def cell_append_left filled_store_path_def)
qed


lemma joined_shape:
  assumes "wf_df left" and "''store_path'' \<in> set (columns left)"
  shows "\<forall>l \<in> set (rows left).
           map (map fill_cell) (join_row left right l) \<noteq> []
         \<and> (\<forall>y \<in> set (map (map fill_cell) (join_row left right l)).
               cell (merged_columns (columns left) (columns right)) y ''store_path''
                 = filled_store_path left l)"
proof
  fix l
  assume "l \<in> set (rows left)"
  with assms(1) have len: "length l = length (columns left)"
    by (simp add: wf_df_def list_all_iff)
  have "map (map fill_cell) (join_row left right l) \<noteq> []"
    by (subst join_row_hd) simp
  moreover have "\<forall>y \<in> set (map (map fill_cell) (join_row left right l)).
               cell (merged_columns (columns left) (columns right)) y ''store_path''
                 = filled_store_path left l"
    using joined_key [OF len assms(2)] by auto
  ultimately show "map (map fill_cell) (join_row left right l) \<noteq> []
         \<and> (\<forall>y \<in> set (map (map fill_cell) (join_row left right l)).
               cell (merged_columns (columns left) (columns right)) y ''store_path''
                 = filled_store_path left l)"
    by blast
qed

lemma joined_hd:
  "hd (map (map fill_cell) (join_row left right l)) =
     map fill_cell
       (l @ (case find (\<lambda>m. key_match (cell (columns left) l ''name'')
                                      (cell (columns right) m ''name'')) (rows right) of
               None \<Rightarrow> replicate (length (filter (\<lambda>c. c \<noteq> ''name'') (columns right))) PNaN
             | Some m \<Rightarrow> drop_col (columns right) ''name'' m))"
  by (subst join_row_hd) simp

lemma generate_sbomdb_joined:
  assumes "generate_sbomdb fs loads df_store (Some p) = Inr df"
    and "parse_json_metadata fs loads p = Inr df_meta"
  shows "columns df = merged_columns (columns df_store) (columns df_meta)
       \<and> rows df = keep_first (\<lambda>r. cell (columns df) r ''store_path'') []
                     (concat (map (\<lambda>l. map (map fill_cell) (join_row df_store df_meta l))
                                  (rows df_store)))"
  using assms
  by (auto simp: generate_sbomdb_def df_sbom_def df_sbomdb_def merge_def drop_duplicates_def
      replace_nan_def map_concat comp_def split: if_splits)

text \<open>
  Claim C10. With a metadata file, every row of the canonical frame is the filled
  concatenation of the first store row that has its (filled) store path and of the cells,
  without the key, of the first catalog row in file order whose name matches that store
  row; when no catalog row matches, of \<^verbatim>\<open>nan\<close> cells.
\<close>

theorem first_catalog_match_kept:
  assumes "generate_sbomdb fs loads df_store (Some p) = Inr df"
    and "parse_json_metadata fs loads p = Inr df_meta"
    and "wf_df df_store"
    and "''store_path'' \<in> set (columns df_store)"
  shows "\<forall>r \<in> set (rows df). \<exists>l.
           find (\<lambda>x. filled_store_path df_store x = cell (columns df) r ''store_path'')
             (rows df_store) = Some l
         \<and> r = map fill_cell
                 (l @ (case find (\<lambda>m. key_match (cell (columns df_store) l ''name'')
                                                (cell (columns df_meta) m ''name''))
                              (rows df_meta) of
                         None \<Rightarrow> replicate (length (filter (\<lambda>c. c \<noteq> ''name'') (columns df_meta))) PNaN
                       | Some m \<Rightarrow> drop_col (columns df_meta) ''name'' m))"
proof
  fix r
  assume r: "r \<in> set (rows df)"
  define key where "key = (\<lambda>r. cell (columns df) r ''store_path'')"
  define f where "f = (\<lambda>l. map (map fill_cell) (join_row df_store df_meta l))"
  from generate_sbomdb_joined [OF assms(1,2)]
  have cols: "columns df = merged_columns (columns df_store) (columns df_meta)"
    and rws: "rows df = keep_first key [] (concat (map f (rows df_store)))"
    by (simp_all add: key_def f_def)
  have shape: "\<forall>l \<in> set (rows df_store).
      f l \<noteq> [] \<and> (\<forall>y \<in> set (f l). key y = filled_store_path df_store l)"
    unfolding f_def key_def cols by (rule joined_shape [OF assms(3,4)])
  from r rws have "find (\<lambda>y. key y = key r) (concat (map f (rows df_store))) = Some r"
    by (simp add: keep_first_find)
  with find_concat_map [OF shape, of "key r"]
  have "map_option (\<lambda>x. hd (f x))
          (find (\<lambda>x. filled_store_path df_store x = key r) (rows df_store)) = Some r"
    by simp
  then obtain l where l: "find (\<lambda>x. filled_store_path df_store x = key r) (rows df_store) = Some l"
    and rl: "r = hd (f l)"
    by (cases "find (\<lambda>x. filled_store_path df_store x = key r) (rows df_store)") auto
  from l rl show "\<exists>l.
           find (\<lambda>x. filled_store_path df_store x = cell (columns df) r ''store_path'')
             (rows df_store) = Some l
         \<and> r = map fill_cell
                 (l @ (case find (\<lambda>m. key_match (cell (columns df_store) l ''name'')
                                                (cell (columns df_meta) m ''name''))
                              (rows df_meta) of
                         None \<Rightarrow> replicate (length (filter (\<lambda>c. c \<noteq> ''name'') (columns df_meta))) PNaN
                       | Some m \<Rightarrow> drop_col (columns df_meta) ''name'' m))"
    unfolding key_def f_def joined_hd by blast
qed

lemma ex_parse_json_metadata_frame:
  "parse_json_metadata ex_fs ex_loads ''meta.json'' = Inr ex_meta"
  by (simp add: ex_parse_json_metadata ex_meta_def)

lemma ex_store_wf: "wf_df ex_store"
  by (simp add: wf_df_def ex_store_def)

lemma ex_store_store_path: "''store_path'' \<in> set (columns ex_store)"
  by (simp add: ex_store_def)

theorem first_catalog_match_kept_witness:
  "generate_sbomdb ex_fs ex_loads ex_store (Some ''meta.json'') = Inr ex_canonical
   \<and> parse_json_metadata ex_fs ex_loads ''meta.json'' = Inr ex_meta
   \<and> wf_df ex_store
   \<and> ''store_path'' \<in> set (columns ex_store)
   \<and> (\<exists>l. find (\<lambda>x. filled_store_path ex_store x
                       = cell (columns ex_canonical) (hd (rows ex_canonical)) ''store_path'')
             (rows ex_store) = Some l
         \<and> hd (rows ex_canonical) = map fill_cell
                 (l @ (case find (\<lambda>m. key_match (cell (columns ex_store) l ''name'')
                                                (cell (columns ex_meta) m ''name''))
                              (rows ex_meta) of
                         None \<Rightarrow> replicate (length (filter (\<lambda>c. c \<noteq> ''name'') (columns ex_meta))) PNaN
                       | Some m \<Rightarrow> drop_col (columns ex_meta) ''name'' m)))
   \<and> cell (columns ex_canonical) (hd (rows ex_canonical)) ''nixpkgs'' = Some (PStr ''foo'')
   \<and> cell (columns ex_canonical) (hd (rows ex_canonical)) ''meta_license_short''
       = Some (PStr ''MIT;BSD'')"
proof -
  have h: "hd (rows ex_canonical) \<in> set (rows ex_canonical)"
    by (simp add: ex_canonical_def)
  note t = first_catalog_match_kept
    [OF ex_generate_sbomdb ex_parse_json_metadata_frame ex_store_wf ex_store_store_path]
  have e: "\<exists>l. find (\<lambda>x. filled_store_path ex_store x
                       = cell (columns ex_canonical) (hd (rows ex_canonical)) ''store_path'')
             (rows ex_store) = Some l
         \<and> hd (rows ex_canonical) = map fill_cell
                 (l @ (case find (\<lambda>m. key_match (cell (columns ex_store) l ''name'')
                                                (cell (columns ex_meta) m ''name''))
                              (rows ex_meta) of
                         None \<Rightarrow> replicate (length (filter (\<lambda>c. c \<noteq> ''name'') (columns ex_meta))) PNaN
                       | Some m \<Rightarrow> drop_col (columns ex_meta) ''name'' m))"
    by (rule t [THEN bspec, OF h])
  have c: "cell (columns ex_canonical) (hd (rows ex_canonical)) ''nixpkgs'' = Some (PStr ''foo'')
      \<and> cell (columns ex_canonical) (hd (rows ex_canonical)) ''meta_license_short''
       = Some (PStr ''MIT;BSD'')"
    by (simp add: ex_canonical_def ex_joined_def cell_def)
  from ex_generate_sbomdb ex_parse_json_metadata_frame ex_store_wf ex_store_store_path e c
  show ?thesis by (intro conjI) simp_all
qed

section \<open>No store row is lost by the join\<close>

lemma kept_of_first:
  assumes shape: "\<forall>x \<in> set xs. f x \<noteq> [] \<and> (\<forall>y \<in> set (f x). key y = K x)"
    and first: "find (\<lambda>x'. K x' = K x) xs = Some x"
  shows "hd (f x) \<in> set (keep_first key [] (concat (map f xs)))"
proof -
  from first have x: "x \<in> set xs"
    by (auto simp: find_Some_iff)
  with shape have "hd (f x) \<in> set (f x)" by simp
  with shape x have k: "key (hd (f x)) = K x" by blast
  from find_concat_map [OF shape, of "K x"] first
  have "find (\<lambda>y. key y = K x) (concat (map f xs)) = Some (hd (f x))"
    by simp
  with k have "find (\<lambda>y. key y = key (hd (f x))) (concat (map f xs)) = Some (hd (f x))"
    by simp
  then show ?thesis by (rule keep_first_member)
qed

lemma kept_of_distinct:
  assumes shape: "\<forall>x \<in> set xs. f x \<noteq> [] \<and> (\<forall>y \<in> set (f x). key y = K x)"
    and "distinct (map K xs)" and "x \<in> set xs"
  shows "hd (f x) \<in> set (keep_first key [] (concat (map f xs)))"
  using shape find_distinct [OF assms(2,3)] by (rule kept_of_first)

lemma generate_sbomdb_rows_kept:
  assumes "df_sbomdb fs loads df_store meta_path = Inr j"
    and "wf_df df_store"
    and "''store_path'' \<in> set (columns df_store)"
  shows "\<exists>df f key. generate_sbomdb fs loads df_store meta_path = Inr df
      \<and> rows df = keep_first key [] (concat (map f (rows df_store)))
      \<and> (\<forall>l \<in> set (rows df_store).
            f l \<noteq> [] \<and> (\<forall>y \<in> set (f l). key y = filled_store_path df_store l))
      \<and> (\<forall>l. take (length l) (hd (f l)) = map fill_cell l)"
proof (cases meta_path)
  case None
  define key where "key = (\<lambda>r. cell (columns df_store) r ''store_path'')"
  define f where "f = (\<lambda>l. [map fill_cell l])"
  have c: "concat (map f (rows df_store)) = map (map fill_cell) (rows df_store)"
    by (induction "rows df_store") (simp_all add: f_def)
  from None assms(3) have "generate_sbomdb fs loads df_store meta_path
      = Inr \<lparr>columns = columns df_store,
             rows = keep_first key [] (concat (map f (rows df_store)))\<rparr>"
    by (simp add: generate_sbomdb_def df_sbom_def df_sbomdb_def drop_duplicates_def
        replace_nan_def key_def c)
  moreover have "\<forall>l \<in> set (rows df_store).
            f l \<noteq> [] \<and> (\<forall>y \<in> set (f l). key y = filled_store_path df_store l)"
    by (simp add: f_def key_def cell_map filled_store_path_def)
  moreover have "\<forall>l. take (length l) (hd (f l)) = map fill_cell l"
    by (simp add: f_def)
  ultimately show ?thesis
    by (intro exI [of _ "\<lparr>columns = columns df_store,
             rows = keep_first key [] (concat (map f (rows df_store)))\<rparr>"] exI [of _ f]
        exI [of _ key]) simp
next
  case (Some p)
  with assms(1) obtain df_meta where
    m: "merge df_store df_meta = Inr j"
    by (auto simp: df_sbomdb_def raising_eq_Inr)
  define f where "f = (\<lambda>l. map (map fill_cell) (join_row df_store df_meta l))"
  define cols where "cols = merged_columns (columns df_store) (columns df_meta)"
  define key where "key = (\<lambda>r. cell cols r ''store_path'')"
  from m have j: "j = \<lparr>columns = cols, rows = concat (map (join_row df_store df_meta) (rows df_store))\<rparr>"
    by (auto simp: merge_def cols_def split: if_splits)
  from assms(3) have sp: "''store_path'' \<in> set cols"
    by (simp add: cols_def merged_columns_def)
  from assms(1) j sp have "generate_sbomdb fs loads df_store meta_path
      = Inr \<lparr>columns = cols, rows = keep_first key [] (concat (map f (rows df_store)))\<rparr>"
    by (simp add: generate_sbomdb_def df_sbom_def drop_duplicates_def replace_nan_def
        key_def f_def map_concat comp_def)
  moreover have "\<forall>l \<in> set (rows df_store).
      f l \<noteq> [] \<and> (\<forall>y \<in> set (f l). key y = filled_store_path df_store l)"
    unfolding f_def key_def cols_def by (rule joined_shape [OF assms(2,3)])
  moreover have "\<forall>l. take (length l) (hd (f l)) = map fill_cell l"
    unfolding f_def joined_hd by simp
  ultimately show ?thesis
    by (intro exI [of _ "\<lparr>columns = cols,
             rows = keep_first key [] (concat (map f (rows df_store)))\<rparr>"] exI [of _ f]
        exI [of _ key]) simp
qed

lemma generate_sbomdb_no_metadata:
  assumes "''store_path'' \<in> set (columns df_store)"
  shows "generate_sbomdb fs loads df_store None =
     Inr \<lparr>columns = columns df_store,
          rows = keep_first (\<lambda>r. cell (columns df_store) r ''store_path'') []
                   (rows (replace_nan df_store))\<rparr>"
  using assms
  by (simp add: generate_sbomdb_def df_sbom_def df_sbomdb_def drop_duplicates_def replace_nan_def)

lemma no_metadata_distinct:
  assumes "''store_path'' \<in> set (columns df_store)"
    and "distinct (map (filled_store_path df_store) (rows df_store))"
  shows "generate_sbomdb fs loads df_store None = Inr (replace_nan df_store)"
proof -
  define key where "key = (\<lambda>r. cell (columns df_store) r ''store_path'')"
  have eq: "map key (map (map fill_cell) (rows df_store))
      = map (filled_store_path df_store) (rows df_store)"
    by (simp add: key_def cell_map filled_store_path_def)
  have "distinct (map key (map (map fill_cell) (rows df_store)))"
    unfolding eq by (rule assms(2))
  then have "keep_first key [] (map (map fill_cell) (rows df_store))
      = map (map fill_cell) (rows df_store)"
    by (intro keep_first_all) simp_all
  then show ?thesis
    unfolding generate_sbomdb_no_metadata [OF assms(1)]
    by (simp add: replace_nan_def key_def)
qed

text \<open>
  Claim C2, as the code has it. Whenever the frame \<^verbatim>\<open>df_sbomdb\<close> exists (it always
  does without a metadata file; with one, when the loader and the join return), the
  merge returns a canonical frame in which every store row that is the first with its
  filled store path appears, filled, as the leading cells of a row; so every store row
  appears when the filled store paths are pairwise different. Without a metadata file
  the canonical frame has the columns of the store frame and its rows are rows of the
  filled store frame in their order; it is the filled store frame when the filled store
  paths are pairwise different.
\<close>

theorem inventory_rows_kept:
  assumes "df_sbomdb fs loads df_store meta_path = Inr j"
    and "wf_df df_store"
    and "''store_path'' \<in> set (columns df_store)"
  shows "\<exists>df. generate_sbomdb fs loads df_store meta_path = Inr df
      \<and> (\<forall>l \<in> set (rows df_store).
            find (\<lambda>x. filled_store_path df_store x = filled_store_path df_store l)
              (rows df_store) = Some l
            \<longrightarrow> (\<exists>r \<in> set (rows df). take (length l) r = map fill_cell l))
      \<and> (distinct (map (filled_store_path df_store) (rows df_store))
            \<longrightarrow> (\<forall>l \<in> set (rows df_store).
                   \<exists>r \<in> set (rows df). take (length l) r = map fill_cell l))
      \<and> (meta_path = None
            \<longrightarrow> columns df = columns df_store
              \<and> subseq (rows df) (rows (replace_nan df_store))
              \<and> (distinct (map (filled_store_path df_store) (rows df_store))
                    \<longrightarrow> df = replace_nan df_store))"
proof -
  from generate_sbomdb_rows_kept [OF assms] obtain df f key where
    g: "generate_sbomdb fs loads df_store meta_path = Inr df"
    and r: "rows df = keep_first key [] (concat (map f (rows df_store)))"
    and shape: "\<forall>l \<in> set (rows df_store).
            f l \<noteq> [] \<and> (\<forall>y \<in> set (f l). key y = filled_store_path df_store l)"
    and tk: "\<forall>l. take (length l) (hd (f l)) = map fill_cell l"
    by blast
  have a: "\<exists>r \<in> set (rows df). take (length l) r = map fill_cell l"
    if "l \<in> set (rows df_store)"
      "find (\<lambda>x. filled_store_path df_store x = filled_store_path df_store l)
              (rows df_store) = Some l" for l
  proof -
    from kept_of_first [OF shape that(2)] r have "hd (f l) \<in> set (rows df)" by simp
    with tk show ?thesis by blast
  qed
  have b: "\<exists>r \<in> set (rows df). take (length l) r = map fill_cell l"
    if "distinct (map (filled_store_path df_store) (rows df_store))" "l \<in> set (rows df_store)"
    for l
  proof -
    from kept_of_distinct [OF shape that] r have "hd (f l) \<in> set (rows df)" by simp
    with tk show ?thesis by blast
  qed
  have c: "columns df = columns df_store
              \<and> subseq (rows df) (rows (replace_nan df_store))
              \<and> (distinct (map (filled_store_path df_store) (rows df_store))
                    \<longrightarrow> df = replace_nan df_store)" if n: "meta_path = None"
  proof -
    from g n generate_sbomdb_no_metadata [OF assms(3), of fs loads]
    have df: "df = \<lparr>columns = columns df_store,
          rows = keep_first (\<lambda>r. cell (columns df_store) r ''store_path'') []
                   (rows (replace_nan df_store))\<rparr>"
      by simp
    then have "columns df = columns df_store" by simp
    moreover from df have "subseq (rows df) (rows (replace_nan df_store))"
      by (simp add: keep_first_subseq)
    moreover have "df = replace_nan df_store"
      if "distinct (map (filled_store_path df_store) (rows df_store))"
      using g n no_metadata_distinct [OF assms(3) that, of fs loads] by simp
    ultimately show ?thesis by blast
  qed
  from g a b c show ?thesis by blast
qed


lemma ex_store_df_sbomdb:
  "df_sbomdb ex_fs ex_loads ex_store (Some ''meta.json'') =
     Inr \<lparr>columns = merged_columns (columns ex_store) (columns ex_meta),
          rows = concat (map (join_row ex_store ex_meta) (rows ex_store))\<rparr>"
  by (simp add: model_defs ex_defs ex_meta_def)

lemma ex_store_distinct_df_sbomdb:
  "df_sbomdb ex_fs ex_loads ex_store_distinct None = Inr ex_store_distinct"
  by (simp add: df_sbomdb_def)

theorem inventory_rows_kept_witness:
  "wf_df ex_store
   \<and> ''store_path'' \<in> set (columns ex_store)
   \<and> find (\<lambda>x. filled_store_path ex_store x = filled_store_path ex_store (hd (rows ex_store)))
        (rows ex_store) = Some (hd (rows ex_store))
   \<and> (\<exists>df. generate_sbomdb ex_fs ex_loads ex_store (Some ''meta.json'') = Inr df
        \<and> (\<exists>r \<in> set (rows df).
              take (length (hd (rows ex_store))) r = map fill_cell (hd (rows ex_store))))
   \<and> wf_df ex_store_distinct
   \<and> ''store_path'' \<in> set (columns ex_store_distinct)
   \<and> distinct (map (filled_store_path ex_store_distinct) (rows ex_store_distinct))
   \<and> generate_sbomdb ex_fs ex_loads ex_store_distinct None = Inr (replace_nan ex_store_distinct)"
proof -
  have h: "hd (rows ex_store) \<in> set (rows ex_store)"
    by (simp add: ex_store_def)
  have f: "find (\<lambda>x. filled_store_path ex_store x = filled_store_path ex_store (hd (rows ex_store)))
        (rows ex_store) = Some (hd (rows ex_store))"
    by (simp add: ex_store_def)
  from inventory_rows_kept [OF ex_store_df_sbomdb ex_store_wf ex_store_store_path] h f
  have a: "\<exists>df. generate_sbomdb ex_fs ex_loads ex_store (Some ''meta.json'') = Inr df
        \<and> (\<exists>r \<in> set (rows df).
              take (length (hd (rows ex_store))) r = map fill_cell (hd (rows ex_store)))"
    by (elim exE conjE) (intro exI conjI, assumption, blast)
  have w: "wf_df ex_store_distinct"
    by (simp add: wf_df_def ex_store_distinct_def)
  have s: "''store_path'' \<in> set (columns ex_store_distinct)"
    by (simp add: ex_store_distinct_def)
  have d: "distinct (map (filled_store_path ex_store_distinct) (rows ex_store_distinct))"
    by (simp add: filled_store_path_def cell_def fill_cell_def ex_store_distinct_def)
  from inventory_rows_kept [OF ex_store_distinct_df_sbomdb w s] d
  have b: "generate_sbomdb ex_fs ex_loads ex_store_distinct None = Inr (replace_nan ex_store_distinct)"
    by (elim exE conjE) simp
  from ex_store_wf ex_store_store_path f a w s d b show ?thesis by (intro conjI)
qed

text \<open>
  The example store frame lists the path \<^verbatim>\<open>/nix/store/aaa-foo-1.0\<close> twice: without a
  metadata file its second row is not in the canonical frame, which therefore differs
  from the filled store frame.
\<close>

theorem inventory_rows_kept_counterexample:
  "generate_sbomdb ex_fs ex_loads ex_store None = Inr ex_canonical_store
   \<and> [PStr ''/nix/store/aaa-foo-1.0'', PStr ''foo-1.0'', PStr ''foo2'', PStr ''1.0'', PStr ''c'']
       \<in> set (rows ex_store)
   \<and> [PStr ''/nix/store/aaa-foo-1.0'', PStr ''foo-1.0'', PStr ''foo2'', PStr ''1.0'', PStr ''c'']
       \<notin> set (rows ex_canonical_store)
   \<and> ex_canonical_store \<noteq> replace_nan ex_store"
  by (simp add: model_defs ex_defs ex_canonical_store_def)

text \<open>
  Where the join returns no frame. A catalog without entries gives a metadata frame
  without columns, and the join raises \<^verbatim>\<open>KeyError\<close> on the missing key column. A
  catalog whose names are numbers gives a numeric key column, which pandas refuses to
  join with the names of the store: \<^verbatim>\<open>ValueError\<close>. A name that is a list cannot be
  hashed: \<^verbatim>\<open>TypeError\<close>.
\<close>

lemma empty_catalog_KeyError:
  "generate_sbomdb ex_fs (ex_loads_as (PDict [])) ex_store (Some ''meta.json'')
     = Inl (KeyError ''name'')"
  by (simp add: model_defs ex_defs)

lemma numeric_catalog_name_ValueError:
  "generate_sbomdb ex_fs (ex_loads_as (PDict [(''x'', PDict [(''name'', PInt 5)])])) ex_store
     (Some ''meta.json'')
     = Inl ValueError"
  by (simp add: model_defs ex_defs)

lemma list_catalog_name_TypeError:
  "generate_sbomdb ex_fs
     (ex_loads_as (PDict [(''x'', PDict [(''name'', PList [PStr ''foo-1.0''])])])) ex_store
     (Some ''meta.json'')
     = Inl TypeError"
  by (simp add: model_defs ex_defs)

end
